theory Spec2Isabelle
  imports Complex_Main "HOL-Library.AList"
begin

section \<open>JavaScript numbers\<close>

text \<open>
  The engine computes on JavaScript numbers. A finite double is idealised as a real
  (rounding, overflow and the sign of zero are not modelled); the three non-finite
  values are kept, because the source relies on what division by zero and comparisons
  with \<open>NaN\<close> do.
\<close>

datatype jsnum = Num real | PosInf | NegInf | NaN

fun jneg :: "jsnum \<Rightarrow> jsnum" where
  "jneg (Num a) = Num (- a)"
| "jneg PosInf = NegInf"
| "jneg NegInf = PosInf"
| "jneg NaN = NaN"

fun jadd :: "jsnum \<Rightarrow> jsnum \<Rightarrow> jsnum" where
  "jadd (Num a) (Num b) = Num (a + b)"
| "jadd NaN _ = NaN"
| "jadd _ NaN = NaN"
| "jadd PosInf NegInf = NaN"
| "jadd NegInf PosInf = NaN"
| "jadd PosInf _ = PosInf"
| "jadd _ PosInf = PosInf"
| "jadd NegInf _ = NegInf"
| "jadd _ NegInf = NegInf"

definition jsub :: "jsnum \<Rightarrow> jsnum \<Rightarrow> jsnum" where
  "jsub a b = jadd a (jneg b)"

text \<open>Sign of a number that is not \<open>NaN\<close>: \<open>-1\<close>, \<open>0\<close> or \<open>1\<close>.\<close>

fun jsign :: "jsnum \<Rightarrow> int" where
  "jsign (Num a) = (if a < 0 then - 1 else if a = 0 then 0 else 1)"
| "jsign PosInf = 1"
| "jsign NegInf = - 1"
| "jsign NaN = 0"

fun jmul :: "jsnum \<Rightarrow> jsnum \<Rightarrow> jsnum" where
  "jmul (Num a) (Num b) = Num (a * b)"
| "jmul NaN _ = NaN"
| "jmul _ NaN = NaN"
| "jmul x y = (if jsign x = 0 \<or> jsign y = 0 then NaN
               else if jsign x = jsign y then PosInf else NegInf)"

fun jdiv :: "jsnum \<Rightarrow> jsnum \<Rightarrow> jsnum" where
  "jdiv (Num a) (Num b) =
     (if b = 0 then (if a = 0 then NaN else if 0 < a then PosInf else NegInf)
      else Num (a / b))"
| "jdiv NaN _ = NaN"
| "jdiv _ NaN = NaN"
| "jdiv (Num a) _ = Num 0"
| "jdiv PosInf (Num b) = (if 0 \<le> b then PosInf else NegInf)"
| "jdiv NegInf (Num b) = (if 0 \<le> b then NegInf else PosInf)"
| "jdiv _ _ = NaN"

fun jlt :: "jsnum \<Rightarrow> jsnum \<Rightarrow> bool" where
  "jlt (Num a) (Num b) = (a < b)"
| "jlt NaN _ = False"
| "jlt _ NaN = False"
| "jlt _ NegInf = False"
| "jlt NegInf _ = True"
| "jlt PosInf _ = False"
| "jlt _ PosInf = True"

fun jle :: "jsnum \<Rightarrow> jsnum \<Rightarrow> bool" where
  "jle (Num a) (Num b) = (a \<le> b)"
| "jle NaN _ = False"
| "jle _ NaN = False"
| "jle NegInf _ = True"
| "jle _ PosInf = True"
| "jle _ _ = False"

definition jgt :: "jsnum \<Rightarrow> jsnum \<Rightarrow> bool" where
  "jgt a b = jlt b a"

definition jge :: "jsnum \<Rightarrow> jsnum \<Rightarrow> bool" where
  "jge a b = jle b a"

text \<open>\<open>Math.max\<close> and \<open>Math.min\<close> of two numbers: \<open>NaN\<close> if either is.\<close>

definition jmax :: "jsnum \<Rightarrow> jsnum \<Rightarrow> jsnum" where
  "jmax a b = (if a = NaN \<or> b = NaN then NaN else if jlt a b then b else a)"

definition jmin :: "jsnum \<Rightarrow> jsnum \<Rightarrow> jsnum" where
  "jmin a b = (if a = NaN \<or> b = NaN then NaN else if jlt b a then b else a)"

fun jabs :: "jsnum \<Rightarrow> jsnum" where
  "jabs (Num a) = Num \<bar>a\<bar>"
| "jabs PosInf = PosInf"
| "jabs NegInf = PosInf"
| "jabs NaN = NaN"

fun jfloor :: "jsnum \<Rightarrow> jsnum" where
  "jfloor (Num a) = Num (of_int \<lfloor>a\<rfloor>)"
| "jfloor x = x"

fun jceil :: "jsnum \<Rightarrow> jsnum" where
  "jceil (Num a) = Num (of_int \<lceil>a\<rceil>)"
| "jceil x = x"

fun jsqrt :: "jsnum \<Rightarrow> jsnum" where
  "jsqrt (Num a) = (if a < 0 then NaN else Num (sqrt a))"
| "jsqrt PosInf = PosInf"
| "jsqrt NegInf = NaN"
| "jsqrt NaN = NaN"

text \<open>A number is falsy when it is \<open>0\<close> or \<open>NaN\<close>.\<close>

fun truthy :: "jsnum \<Rightarrow> bool" where
  "truthy (Num a) = (a \<noteq> 0)"
| "truthy NaN = False"
| "truthy _ = True"

text \<open>\<open>reduce((sum, x) => sum + x, 0)\<close>.\<close>

definition jsum :: "jsnum list \<Rightarrow> jsnum" where
  "jsum xs = foldl jadd (Num 0) xs"

text \<open>
  Text built by a template literal around a number is kept symbolic:
  \<open>Fmt pre x d post\<close> stands for \<open>pre + x.toFixed(d) + post\<close> and
  \<open>Tpl pre x post\<close> for \<open>pre + String(x) + post\<close>.
\<close>

datatype msg = Str string | Fmt string jsnum nat string | Tpl string jsnum string


section \<open>Risk sizing (src/lib/risk-management.ts)\<close>

datatype tolerance = LOW | MEDIUM | HIGH

record RiskParameters =
  maxPortfolioRisk :: jsnum
  maxPositionSize :: jsnum
  maxCorrelatedExposure :: jsnum
  stopLossPercent :: jsnum
  takeProfitPercent :: "jsnum option"
  maxDrawdownLimit :: jsnum
  maxDailyLoss :: jsnum
  riskFreeRateParam :: jsnum

definition defaultParameters :: RiskParameters where
  "defaultParameters =
     \<lparr> maxPortfolioRisk = Num 2, maxPositionSize = Num 20,
       maxCorrelatedExposure = Num 40, stopLossPercent = Num 5,
       takeProfitPercent = Some (Num 15), maxDrawdownLimit = Num 20,
       maxDailyLoss = Num 5, riskFreeRateParam = Num (2 / 100) \<rparr>"

record PositionSizingInput =
  symbol_in :: string
  entryPrice_in :: jsnum
  stopLossPrice_in :: jsnum
  portfolioValue_in :: jsnum
  riskPerTrade_in :: jsnum
  userRiskTolerance_in :: tolerance
  volatility_in :: "jsnum option"
  correlation_in :: "jsnum option"

record PositionSizingResult =
  recommendedShares :: jsnum
  recommendedValue :: jsnum
  riskAmount :: jsnum
  riskPercent :: jsnum
  positionSizePercent :: jsnum
  stopLossDistance :: jsnum
  warnings :: "msg list"
  adjustments :: "msg list"

fun toleranceMultipliers :: "tolerance \<Rightarrow> jsnum" where
  "toleranceMultipliers LOW = Num (1 / 2)"
| "toleranceMultipliers MEDIUM = Num 1"
| "toleranceMultipliers HIGH = Num (3 / 2)"

text \<open>The destructuring defaults \<open>volatility = 0.2\<close> and \<open>correlation = 0\<close>.\<close>

definition volatility_of :: "PositionSizingInput \<Rightarrow> jsnum" where
  "volatility_of inp = (case volatility_in inp of None \<Rightarrow> Num (2 / 10) | Some v \<Rightarrow> v)"

definition correlation_of :: "PositionSizingInput \<Rightarrow> jsnum" where
  "correlation_of inp = (case correlation_in inp of None \<Rightarrow> Num 0 | Some c \<Rightarrow> c)"

text \<open>The locals of \<open>calculatePositionSize\<close>, in the order of the source.\<close>

definition stopLossDistance_of :: "PositionSizingInput \<Rightarrow> jsnum" where
  "stopLossDistance_of inp =
     jmul (jdiv (jabs (jsub (entryPrice_in inp) (stopLossPrice_in inp))) (entryPrice_in inp))
          (Num 100)"

definition adjustedRiskPerTrade_of :: "PositionSizingInput \<Rightarrow> jsnum" where
  "adjustedRiskPerTrade_of inp =
     jmul (riskPerTrade_in inp) (toleranceMultipliers (userRiskTolerance_in inp))"

definition riskAmount_of :: "PositionSizingInput \<Rightarrow> jsnum" where
  "riskAmount_of inp =
     jmul (portfolioValue_in inp) (jdiv (adjustedRiskPerTrade_of inp) (Num 100))"

definition priceRisk_of :: "PositionSizingInput \<Rightarrow> jsnum" where
  "priceRisk_of inp = jabs (jsub (entryPrice_in inp) (stopLossPrice_in inp))"

definition baseShares_of :: "PositionSizingInput \<Rightarrow> jsnum" where
  "baseShares_of inp = jfloor (jdiv (riskAmount_of inp) (priceRisk_of inp))"

definition volatilityAdjustment_of :: "PositionSizingInput \<Rightarrow> jsnum" where
  "volatilityAdjustment_of inp =
     jmax (Num (1 / 2)) (jmin (Num (3 / 2)) (jdiv (Num 1) (volatility_of inp)))"

definition adjustedShares_of :: "PositionSizingInput \<Rightarrow> jsnum" where
  "adjustedShares_of inp = jfloor (jmul (baseShares_of inp) (volatilityAdjustment_of inp))"

definition adjustedValue_of :: "PositionSizingInput \<Rightarrow> jsnum" where
  "adjustedValue_of inp = jmul (adjustedShares_of inp) (entryPrice_in inp)"

text \<open>
  The mutable part of the function: \<open>finalShares\<close>, \<open>finalValue\<close>, \<open>warnings\<close>
  and \<open>adjustments\<close>, threaded through the position-limit check and then the
  correlation check.
\<close>

record sizing_state =
  finalShares :: jsnum
  finalValue :: jsnum
  warns :: "msg list"
  adjs :: "msg list"

definition limitStep :: "RiskParameters \<Rightarrow> PositionSizingInput \<Rightarrow> sizing_state" where
  "limitStep ps inp =
     (let positionSizePercent0 =
            jmul (jdiv (adjustedValue_of inp) (portfolioValue_in inp)) (Num 100)
      in if jgt positionSizePercent0 (maxPositionSize ps)
         then (let fs = jfloor (jdiv (jmul (portfolioValue_in inp)
                                        (jdiv (maxPositionSize ps) (Num 100)))
                                  (entryPrice_in inp))
               in \<lparr> finalShares = fs, finalValue = jmul fs (entryPrice_in inp),
                    warns = [Tpl ''Position size reduced to '' (maxPositionSize ps) ''% limit''],
                    adjs = [Str ''Consider reducing position size or increasing stop-loss distance''] \<rparr>)
         else \<lparr> finalShares = adjustedShares_of inp, finalValue = adjustedValue_of inp,
                warns = [], adjs = [] \<rparr>)"

definition correlationStep :: "PositionSizingInput \<Rightarrow> sizing_state \<Rightarrow> sizing_state" where
  "correlationStep inp st =
     (if jgt (correlation_of inp) (Num (7 / 10))
      then (let fs = jfloor (jmul (finalShares st) (Num (7 / 10)))
            in \<lparr> finalShares = fs, finalValue = jmul fs (entryPrice_in inp),
                 warns = warns st @ [Str ''Position size reduced due to high correlation with existing holdings''],
                 adjs = adjs st @ [Str ''Consider diversifying into uncorrelated assets''] \<rparr>)
      else st)"

definition calculatePositionSize ::
  "RiskParameters \<Rightarrow> PositionSizingInput \<Rightarrow> PositionSizingResult" where
  "calculatePositionSize ps inp =
     (let st = correlationStep inp (limitStep ps inp);
          finalRiskAmount = jmul (finalShares st) (priceRisk_of inp);
          finalRiskPercent = jmul (jdiv finalRiskAmount (portfolioValue_in inp)) (Num 100);
          finalPositionPercent = jmul (jdiv (finalValue st) (portfolioValue_in inp)) (Num 100);
          w1 = (if jgt (stopLossDistance_of inp) (Num 10)
                then [Str ''Stop-loss distance is high (>10%), consider tighter risk management'']
                else []);
          w2 = (if jgt finalRiskPercent (maxPortfolioRisk ps)
                then [Fmt ''Risk per trade ('' finalRiskPercent 2 ''%) exceeds recommended limit'']
                else []);
          w3 = (if jgt (volatility_of inp) (Num (4 / 10))
                then [Str ''High volatility asset - consider smaller position size'']
                else []);
          a3 = (if jgt (volatility_of inp) (Num (4 / 10))
                then [Str ''Monitor position closely and consider trailing stops'']
                else [])
      in \<lparr> recommendedShares = jmax (Num 0) (finalShares st),
           recommendedValue = finalValue st,
           riskAmount = finalRiskAmount,
           riskPercent = finalRiskPercent,
           positionSizePercent = finalPositionPercent,
           stopLossDistance = stopLossDistance_of inp,
           warnings = warns st @ w1 @ w2 @ w3,
           adjustments = adjs st @ a3 \<rparr>)"

text \<open>The sizing scenario of the specification.\<close>

definition sizingScenario :: PositionSizingInput where
  "sizingScenario =
     \<lparr> symbol_in = ''AAPL'', entryPrice_in = Num 100, stopLossPrice_in = Num 95,
       portfolioValue_in = Num 100000, riskPerTrade_in = Num 2,
       userRiskTolerance_in = MEDIUM, volatility_in = None, correlation_in = None \<rparr>"


section \<open>Backtesting engine (src/lib/backtesting-engine.ts)\<close>

subsection \<open>Data model\<close>

text \<open>
  A \<open>Date\<close> is its time value, an integer number of milliseconds. Fields whose name
  occurs in several interfaces carry a suffix here (\<open>_p\<close> position, \<open>_t\<close> trade,
  \<open>_s\<close> signal, \<open>_r\<close> result). Of a strategy only the name and the parameters are
  kept; the engine passes the strategy on and reads nothing of it.
\<close>

definition msPerDay :: int where
  "msPerDay = 1000 * 60 * 60 * 24"

record BacktestData =
  timestamp :: int
  symbol :: string
  openPrice :: jsnum
  high :: jsnum
  low :: jsnum
  close :: jsnum
  volume :: jsnum

record IStrategy =
  strategyName :: string
  parameters :: "(string \<times> jsnum) list"

record BacktestParameters =
  strategy :: IStrategy
  startDate :: int
  endDate :: int
  initialCapital :: jsnum
  symbols :: "string list"
  commission :: jsnum
  slippage :: jsnum
  maxPositions :: jsnum

datatype side = LONG | SHORT

record BacktestPosition =
  symbol_p :: string
  side_p :: side
  entryPrice :: jsnum
  entryDate :: int
  quantity :: jsnum
  stopLoss :: "jsnum option"
  takeProfit :: "jsnum option"
  value_p :: jsnum

datatype exit_reason = STOP_LOSS | TAKE_PROFIT | SIGNAL_EXIT | END_OF_PERIOD

record BacktestTrade =
  symbol_t :: string
  side_t :: side
  entryPrice_t :: jsnum
  exitPrice :: jsnum
  entryDate_t :: int
  exitDate :: int
  quantity_t :: jsnum
  profit :: jsnum
  profitPercent :: jsnum
  commission_t :: jsnum
  holdingPeriod :: jsnum
  reason :: exit_reason

record BacktestMetrics =
  totalReturn :: jsnum
  totalReturnPercent :: jsnum
  annualizedReturn :: jsnum
  sharpeRatio :: jsnum
  maxDrawdown :: jsnum
  maxDrawdownPercent :: jsnum
  volatility :: jsnum
  totalTrades :: nat
  winningTrades :: nat
  losingTrades :: nat
  winRate :: jsnum
  averageWin :: jsnum
  averageLoss :: jsnum
  profitFactor :: jsnum
  largestWin :: jsnum
  largestLoss :: jsnum
  averageHoldingPeriod :: jsnum
  totalCommissions :: jsnum
  calmarRatio :: jsnum
  sortinoRatio :: jsnum

record EquityPoint =
  date :: int
  equity :: jsnum
  drawdown :: jsnum
  drawdownPercent :: jsnum

datatype signal_type = BUY | SELL | HOLD

record TradingSignal =
  type_s :: signal_type
  strength :: jsnum
  price_s :: jsnum
  timestamp_s :: int
  reasoning :: msg

subsection \<open>Array helpers\<close>

text \<open>\<open>xs.slice(s, e)\<close> and \<open>xs.slice(s)\<close>; a negative index counts from the end.\<close>

definition slice :: "int \<Rightarrow> int \<Rightarrow> 'a list \<Rightarrow> 'a list" where
  "slice s e xs =
     (let n = int (length xs);
          from = (if s < 0 then max (n + s) 0 else min s n);
          to = (if e < 0 then max (n + e) 0 else min e n)
      in take (nat (to - from)) (drop (nat from) xs))"

definition sliceFrom :: "int \<Rightarrow> 'a list \<Rightarrow> 'a list" where
  "sliceFrom s xs = slice s (int (length xs)) xs"

text \<open>\<open>Math.max(...xs)\<close> is \<open>-Infinity\<close> on no arguments; \<open>Math.max(0, ...xs)\<close> starts at 0.\<close>

definition jmaxList :: "jsnum \<Rightarrow> jsnum list \<Rightarrow> jsnum" where
  "jmaxList z xs = foldl jmax z xs"

definition jminList :: "jsnum \<Rightarrow> jsnum list \<Rightarrow> jsnum" where
  "jminList z xs = foldl jmin z xs"

subsection \<open>Signal generation\<close>

text \<open>The pairs \<open>(data[i - 1], data[i])\<close> for \<open>i = 1 .. length - 1\<close>.\<close>

definition consecutive :: "'a list \<Rightarrow> ('a \<times> 'a) list" where
  "consecutive xs = zip xs (tl xs)"

definition calculateRSI :: "BacktestData list \<Rightarrow> nat \<Rightarrow> jsnum" where
  "calculateRSI data period =
     (if length data < period + 1 then Num 50
      else
        (let changes = map (\<lambda>(prev, cur). jsub (close cur) (close prev)) (consecutive data);
             gains = map (\<lambda>change. jmax (Num 0) change) changes;
             losses = map (\<lambda>change. jmax (Num 0) (jneg change)) changes;
             avgGain = jdiv (jsum (sliceFrom (- int period) gains)) (Num (real period));
             avgLoss = jdiv (jsum (sliceFrom (- int period) losses)) (Num (real period))
         in if avgLoss = Num 0 then Num 100
            else (let rs = jdiv avgGain avgLoss
                  in jsub (Num 100) (jdiv (Num 100) (jadd (Num 1) rs)))))"

definition generateTradingSignal ::
  "BacktestData \<Rightarrow> IStrategy \<Rightarrow> BacktestData list \<Rightarrow> TradingSignal" where
  "generateTradingSignal currentData strat historicalData =
     (if length historicalData < 20
      then \<lparr> type_s = HOLD, strength = Num 0, price_s = close currentData,
             timestamp_s = timestamp currentData,
             reasoning = Str ''Insufficient historical data'' \<rparr>
      else
        (let shortPeriod = 10;
             longPeriod = 20;
             recentData = sliceFrom (- longPeriod) historicalData;
             shortMA = jdiv (jsum (map close (sliceFrom (- shortPeriod) recentData)))
                            (Num (real_of_int shortPeriod));
             longMA = jdiv (jsum (map close recentData)) (Num (real_of_int longPeriod));
             prevShortMA = jdiv (jsum (map close (slice (- shortPeriod - 1) (- 1) recentData)))
                                (Num (real_of_int shortPeriod));
             prevLongMA = (if sliceFrom (- 1) recentData \<noteq> []
                           then jdiv (jsum (map close (slice 0 (- 1) recentData)))
                                     (Num (real_of_int (longPeriod - 1)))
                           else longMA);
             rsi = calculateRSI recentData 14
         in if jgt shortMA longMA \<and> jle prevShortMA prevLongMA \<and> jlt rsi (Num 70)
            then \<lparr> type_s = BUY,
                   strength = jmin (Num 1) (jadd (jdiv (jsub shortMA longMA) longMA)
                                                 (jdiv (jsub (Num 70) rsi) (Num 100))),
                   price_s = close currentData, timestamp_s = timestamp currentData,
                   reasoning = Fmt ''MA crossover bullish, RSI: '' rsi 1 [] \<rparr>
            else if jlt shortMA longMA \<and> jge prevShortMA prevLongMA \<and> jgt rsi (Num 30)
            then \<lparr> type_s = SELL,
                   strength = jmin (Num 1) (jadd (jdiv (jsub longMA shortMA) longMA)
                                                 (jdiv (jsub rsi (Num 30)) (Num 100))),
                   price_s = close currentData, timestamp_s = timestamp currentData,
                   reasoning = Fmt ''MA crossover bearish, RSI: '' rsi 1 [] \<rparr>
            else \<lparr> type_s = HOLD, strength = Num 0, price_s = close currentData,
                   timestamp_s = timestamp currentData,
                   reasoning = Str ''No clear signal'' \<rparr>))"

subsection \<open>Position lifecycle\<close>

definition executeEntry ::
  "TradingSignal \<Rightarrow> BacktestData \<Rightarrow> jsnum \<Rightarrow> BacktestParameters \<Rightarrow> BacktestPosition option" where
  "executeEntry signal data availableCapital ps =
     (let positionSize = jmin (jmul availableCapital (Num (1 / 10)))
                              (jmul (initialCapital ps) (Num (2 / 10)))
      in if jlt positionSize (Num 1000) then None
         else
           (let entryPrice' = jmul (close data) (jadd (Num 1) (jdiv (slippage ps) (Num 100)));
                quantity' = jfloor (jdiv positionSize entryPrice');
                actualValue = jadd (jmul quantity' entryPrice') (commission ps)
            in if jgt actualValue availableCapital then None
               else Some \<lparr> symbol_p = symbol data, side_p = LONG, entryPrice = entryPrice',
                           entryDate = timestamp data, quantity = quantity',
                           stopLoss = Some (jmul entryPrice' (Num (95 / 100))),
                           takeProfit = Some (jmul entryPrice' (Num (115 / 100))),
                           value_p = actualValue \<rparr>))"

definition closePosition ::
  "BacktestPosition \<Rightarrow> jsnum \<Rightarrow> int \<Rightarrow> exit_reason \<Rightarrow> BacktestParameters \<Rightarrow> BacktestTrade" where
  "closePosition position exitPrice' exitDate' reason' ps =
     (let adjustedExitPrice = jmul exitPrice' (jsub (Num 1) (jdiv (slippage ps) (Num 100)));
          profit' = jsub (jmul (jsub adjustedExitPrice (entryPrice position)) (quantity position))
                         (jmul (commission ps) (Num 2));
          profitPercent' = jmul (jdiv profit' (jmul (entryPrice position) (quantity position)))
                                (Num 100);
          holdingPeriod' = jceil (Num (real_of_int (exitDate' - entryDate position)
                                        / real_of_int msPerDay))
      in \<lparr> symbol_t = symbol_p position, side_t = side_p position,
           entryPrice_t = entryPrice position, exitPrice = adjustedExitPrice,
           entryDate_t = entryDate position, exitDate = exitDate',
           quantity_t = quantity position, profit = profit', profitPercent = profitPercent',
           commission_t = jmul (commission ps) (Num 2), holdingPeriod = holdingPeriod',
           reason = reason' \<rparr>)"

text \<open>An optional number used as a condition: present and truthy.\<close>

definition present :: "jsnum option \<Rightarrow> bool" where
  "present v = (case v of None \<Rightarrow> False | Some x \<Rightarrow> truthy x)"

record exits =
  closedTrades :: "BacktestTrade list"
  remainingPositions :: "BacktestPosition list"
  capitalFromClosedTrades :: jsnum

text \<open>The exit decision for one position on a bar of its symbol: reason and exit price.\<close>

definition exitDecision :: "BacktestPosition \<Rightarrow> BacktestData \<Rightarrow> exit_reason option \<times> jsnum" where
  "exitDecision position symbolData =
     (if present (stopLoss position) \<and> jle (low symbolData) (the (stopLoss position))
      then (Some STOP_LOSS, the (stopLoss position))
      else if present (takeProfit position) \<and> jge (high symbolData) (the (takeProfit position))
      then (Some TAKE_PROFIT, the (takeProfit position))
      else (None, close symbolData))"

text \<open>One iteration of the loop over the positions.\<close>

definition processPosition ::
  "BacktestData list \<Rightarrow> BacktestParameters \<Rightarrow> exits \<Rightarrow> BacktestPosition \<Rightarrow> exits" where
  "processPosition dayData ps acc position =
     (case find (\<lambda>d. symbol d = symbol_p position) dayData of
        None \<Rightarrow> acc\<lparr> remainingPositions := remainingPositions acc @ [position] \<rparr>
      | Some symbolData \<Rightarrow>
          (case exitDecision position symbolData of
             (Some exitReason, exitPrice') \<Rightarrow>
               (let trade = closePosition position exitPrice' (timestamp symbolData) exitReason ps
                in acc\<lparr> closedTrades := closedTrades acc @ [trade],
                        capitalFromClosedTrades :=
                          jadd (capitalFromClosedTrades acc)
                               (jsub (jmul (quantity_t trade) exitPrice') (commission ps)) \<rparr>)
           | (None, _) \<Rightarrow> acc\<lparr> remainingPositions := remainingPositions acc @ [position] \<rparr>))"

definition processExistingPositions ::
  "BacktestPosition list \<Rightarrow> BacktestData list \<Rightarrow> BacktestParameters \<Rightarrow> exits" where
  "processExistingPositions positions dayData ps =
     foldl (processPosition dayData ps)
       \<lparr> closedTrades = [], remainingPositions = [], capitalFromClosedTrades = Num 0 \<rparr>
       positions"

subsection \<open>The daily loop of runBacktest\<close>

text \<open>
  The key of a bar is the UTC calendar day of its timestamp (the date part of
  \<open>toISOString()\<close>), here the day number; \<open>new Date(key)\<close> is that day's midnight.
  The group of a key holds the bars of that day in the order of the data. The keys are
  processed in sorted order: for the four-digit years the text order of the keys is the
  order of the day numbers.
\<close>

definition dateKey :: "int \<Rightarrow> int" where
  "dateKey ts = ts div msPerDay"

definition dateOfKey :: "int \<Rightarrow> int" where
  "dateOfKey k = k * msPerDay"

definition groupDataByDate :: "BacktestData list \<Rightarrow> int \<Rightarrow> BacktestData list" where
  "groupDataByDate data k = filter (\<lambda>item. dateKey (timestamp item) = k) data"

definition dates :: "BacktestData list \<Rightarrow> int list" where
  "dates data = sort (remdups (map (\<lambda>item. dateKey (timestamp item)) data))"

record sim_state =
  currentCapital :: jsnum
  positions :: "BacktestPosition list"
  trades :: "BacktestTrade list"
  equityCurve :: "EquityPoint list"

text \<open>One iteration of the loop over the day's bars: signal, then entry.\<close>

definition processSignal ::
  "BacktestParameters \<Rightarrow> BacktestData list \<Rightarrow> int
     \<Rightarrow> BacktestPosition list \<times> jsnum \<Rightarrow> BacktestData \<Rightarrow> BacktestPosition list \<times> jsnum" where
  "processSignal ps historicalData date' st symbolData =
     (case st of (positions', currentCapital') \<Rightarrow>
        (let signal = generateTradingSignal symbolData (strategy ps)
                        (filter (\<lambda>d. symbol d = symbol symbolData \<and> timestamp d \<le> date')
                                historicalData)
         in if type_s signal = BUY \<and> jlt (Num (real (length positions'))) (maxPositions ps)
            then (case executeEntry signal symbolData currentCapital' ps of
                    Some newPosition \<Rightarrow>
                      (positions' @ [newPosition], jsub currentCapital' (value_p newPosition))
                  | None \<Rightarrow> (positions', currentCapital'))
            else (positions', currentCapital')))"

text \<open>\<open>dayData.find(d => d.symbol === pos.symbol)?.close || pos.entryPrice\<close>\<close>

definition currentPrice :: "BacktestData list \<Rightarrow> BacktestPosition \<Rightarrow> jsnum" where
  "currentPrice dayData pos =
     (case find (\<lambda>d. symbol d = symbol_p pos) dayData of
        None \<Rightarrow> entryPrice pos
      | Some d \<Rightarrow> if truthy (close d) then close d else entryPrice pos)"

definition positionValue :: "BacktestData list \<Rightarrow> BacktestPosition list \<Rightarrow> jsnum" where
  "positionValue dayData positions' =
     foldl (\<lambda>sum pos. jadd sum (jmul (quantity pos) (currentPrice dayData pos))) (Num 0) positions'"

definition equityPoint ::
  "BacktestParameters \<Rightarrow> int \<Rightarrow> jsnum \<Rightarrow> BacktestPosition list \<Rightarrow> BacktestData list \<Rightarrow> EquityPoint" where
  "equityPoint ps date' currentCapital' positions' dayData =
     (let currentEquity = jadd currentCapital' (positionValue dayData positions');
          drawdown' = jmax (Num 0) (jsub (initialCapital ps) currentEquity);
          drawdownPercent' = jmul (jdiv drawdown' (initialCapital ps)) (Num 100)
      in \<lparr> date = date', equity = currentEquity, drawdown = drawdown',
           drawdownPercent = drawdownPercent' \<rparr>)"

definition processDay ::
  "BacktestParameters \<Rightarrow> BacktestData list \<Rightarrow> sim_state \<Rightarrow> int \<Rightarrow> sim_state" where
  "processDay ps historicalData st dateStr =
     (let date' = dateOfKey dateStr;
          dayData = groupDataByDate historicalData dateStr;
          ex = processExistingPositions (positions st) dayData ps;
          trades' = trades st @ closedTrades ex;
          capital1 = jadd (currentCapital st) (capitalFromClosedTrades ex);
          (positions', capital2) =
             foldl (processSignal ps historicalData date') (remainingPositions ex, capital1) dayData
      in \<lparr> currentCapital = capital2, positions = positions', trades = trades',
           equityCurve = equityCurve st
              @ [equityPoint ps date' capital2 positions' dayData] \<rparr>)"

definition simulate :: "BacktestParameters \<Rightarrow> BacktestData list \<Rightarrow> sim_state" where
  "simulate ps historicalData =
     foldl (processDay ps historicalData)
       \<lparr> currentCapital = initialCapital ps, positions = [], trades = [], equityCurve = [] \<rparr>
       (dates historicalData)"

subsection \<open>Closing what is left, and the result\<close>

text \<open>
  The bars of the symbol sorted by descending timestamp (the sort is stable), and the
  first of them. Reading \<open>.close\<close> of a missing bar throws.
\<close>

datatype engine_error = TypeError

definition finalData :: "BacktestData list \<Rightarrow> string \<Rightarrow> BacktestData option" where
  "finalData historicalData symb =
     (case sort_key (\<lambda>d. - timestamp d) (filter (\<lambda>d. symbol d = symb) historicalData) of
        [] \<Rightarrow> None
      | d # _ \<Rightarrow> Some d)"

fun finalClosedTrades ::
  "BacktestParameters \<Rightarrow> BacktestData list \<Rightarrow> BacktestPosition list
     \<Rightarrow> engine_error + BacktestTrade list" where
  "finalClosedTrades ps historicalData [] = Inr []"
| "finalClosedTrades ps historicalData (pos # rest) =
     (case finalData historicalData (symbol_p pos) of
        None \<Rightarrow> Inl TypeError
      | Some fd \<Rightarrow>
          (case finalClosedTrades ps historicalData rest of
             Inl e \<Rightarrow> Inl e
           | Inr ts \<Rightarrow> Inr (closePosition pos (close fd) (endDate ps) END_OF_PERIOD ps # ts)))"

subsection \<open>Metrics\<close>

text \<open>
  \<open>Math.pow\<close>. The cases follow the language definition of exponentiation; the sign
  of a zero result is not modelled.
\<close>

definition is_int :: "real \<Rightarrow> bool" where
  "is_int y = (of_int \<lfloor>y\<rfloor> = y)"

fun jpow :: "jsnum \<Rightarrow> jsnum \<Rightarrow> jsnum" where
  "jpow _ NaN = NaN"
| "jpow NaN (Num y) = (if y = 0 then Num 1 else NaN)"
| "jpow NaN _ = NaN"
| "jpow PosInf (Num y) = (if y = 0 then Num 1 else if 0 < y then PosInf else Num 0)"
| "jpow PosInf PosInf = PosInf"
| "jpow PosInf NegInf = Num 0"
| "jpow NegInf (Num y) =
     (if y = 0 then Num 1
      else if 0 < y then (if is_int y \<and> odd \<lfloor>y\<rfloor> then NegInf else PosInf)
      else Num 0)"
| "jpow NegInf PosInf = PosInf"
| "jpow NegInf NegInf = Num 0"
| "jpow (Num b) PosInf =
     (if 1 < \<bar>b\<bar> then PosInf else if \<bar>b\<bar> = 1 then NaN else Num 0)"
| "jpow (Num b) NegInf =
     (if 1 < \<bar>b\<bar> then Num 0 else if \<bar>b\<bar> = 1 then NaN else PosInf)"
| "jpow (Num b) (Num y) =
     (if y = 0 then Num 1
      else if b = 0 then (if 0 < y then Num 0 else PosInf)
      else if 0 < b then Num (b powr y)
      else if is_int y then Num (b powi \<lfloor>y\<rfloor>)
      else NaN)"

definition riskFreeRate :: jsnum where
  "riskFreeRate = Num (2 / 100)"

definition calculateVolatility :: "jsnum list \<Rightarrow> jsnum" where
  "calculateVolatility returns =
     (if length returns < 2 then Num 0
      else
        (let mean = jdiv (jsum returns) (Num (real (length returns)));
             variance = jdiv (jsum (map (\<lambda>r. jpow (jsub r mean) (Num 2)) returns))
                             (Num (real (length returns) - 1))
         in jsqrt variance))"

definition getEmptyMetrics :: BacktestMetrics where
  "getEmptyMetrics =
     \<lparr> totalReturn = Num 0, totalReturnPercent = Num 0, annualizedReturn = Num 0,
       sharpeRatio = Num 0, maxDrawdown = Num 0, maxDrawdownPercent = Num 0,
       volatility = Num 0, totalTrades = 0, winningTrades = 0, losingTrades = 0,
       winRate = Num 0, averageWin = Num 0, averageLoss = Num 0, profitFactor = Num 0,
       largestWin = Num 0, largestLoss = Num 0, averageHoldingPeriod = Num 0,
       totalCommissions = Num 0, calmarRatio = Num 0, sortinoRatio = Num 0 \<rparr>"

text \<open>The locals of \<open>calculateMetrics\<close> that the ratios are built from.\<close>

definition dailyReturns_of :: "EquityPoint list \<Rightarrow> jsnum list" where
  "dailyReturns_of curve =
     map (\<lambda>(previous, current). jdiv (jsub (equity current) (equity previous)) (equity previous))
         (consecutive curve)"

definition excessReturn_of :: "EquityPoint list \<Rightarrow> jsnum" where
  "excessReturn_of curve =
     (let dailyReturns = dailyReturns_of curve;
          avgDailyReturn = jdiv (jsum dailyReturns) (Num (real (length dailyReturns)));
          dailyRiskFreeRate = jdiv riskFreeRate (Num 365)
      in jsub avgDailyReturn dailyRiskFreeRate)"

definition annualizedReturn_of :: "EquityPoint list \<Rightarrow> BacktestParameters \<Rightarrow> jsnum" where
  "annualizedReturn_of curve ps =
     (let finalEquity = equity (last curve);
          days = Num (real (length curve));
          years = jdiv days (Num 365)
      in if jgt years (Num 0)
         then jmul (jsub (jpow (jdiv finalEquity (initialCapital ps)) (jdiv (Num 1) years)) (Num 1))
                   (Num 100)
         else Num 0)"

definition downsideVolatility_of :: "EquityPoint list \<Rightarrow> jsnum" where
  "downsideVolatility_of curve =
     (let downsideReturns = filter (\<lambda>r. jlt r (Num 0)) (dailyReturns_of curve)
      in if 0 < length downsideReturns then calculateVolatility downsideReturns else Num 0)"

definition calculateMetrics ::
  "BacktestTrade list \<Rightarrow> EquityPoint list \<Rightarrow> BacktestParameters \<Rightarrow> BacktestMetrics" where
  "calculateMetrics trades' curve ps =
     (if length trades' = 0 \<or> length curve = 0 then getEmptyMetrics
      else
        (let finalEquity = equity (last curve);
             totalReturn' = jsub finalEquity (initialCapital ps);
             totalReturnPercent' = jmul (jdiv totalReturn' (initialCapital ps)) (Num 100);
             annualizedReturn' = annualizedReturn_of curve ps;
             excessReturn = excessReturn_of curve;
             volatility' = calculateVolatility (dailyReturns_of curve);
             sharpeRatio' = (if jgt volatility' (Num 0)
                             then jmul (jdiv excessReturn volatility') (jsqrt (Num 365))
                             else Num 0);
             maxDrawdown' = jmaxList NegInf (map drawdown curve);
             maxDrawdownPercent' = jmaxList NegInf (map drawdownPercent curve);
             winning = filter (\<lambda>t. jgt (profit t) (Num 0)) trades';
             losing = filter (\<lambda>t. jlt (profit t) (Num 0)) trades';
             winRate' = jmul (jdiv (Num (real (length winning))) (Num (real (length trades'))))
                             (Num 100);
             averageWin' = (if 0 < length winning
                            then jdiv (jsum (map profit winning)) (Num (real (length winning)))
                            else Num 0);
             averageLoss' = (if 0 < length losing
                             then jabs (jdiv (jsum (map profit losing))
                                             (Num (real (length losing))))
                             else Num 0);
             profitFactor' = (if jgt averageLoss' (Num 0) then jdiv averageWin' averageLoss'
                              else Num 0);
             largestWin' = jmaxList (Num 0) (map profit trades');
             largestLoss' = jminList (Num 0) (map profit trades');
             averageHoldingPeriod' = jdiv (jsum (map holdingPeriod trades'))
                                          (Num (real (length trades')));
             totalCommissions' = jsum (map commission_t trades');
             calmarRatio' = (if jgt maxDrawdownPercent' (Num 0)
                             then jdiv annualizedReturn' maxDrawdownPercent' else Num 0);
             downsideVolatility = downsideVolatility_of curve;
             sortinoRatio' = (if jgt downsideVolatility (Num 0)
                              then jmul (jdiv excessReturn downsideVolatility) (jsqrt (Num 365))
                              else Num 0)
         in \<lparr> totalReturn = totalReturn', totalReturnPercent = totalReturnPercent',
              annualizedReturn = annualizedReturn', sharpeRatio = sharpeRatio',
              maxDrawdown = maxDrawdown', maxDrawdownPercent = maxDrawdownPercent',
              volatility = jmul (jmul volatility' (jsqrt (Num 365))) (Num 100),
              totalTrades = length trades', winningTrades = length winning,
              losingTrades = length losing, winRate = winRate', averageWin = averageWin',
              averageLoss = averageLoss', profitFactor = profitFactor',
              largestWin = largestWin', largestLoss = largestLoss',
              averageHoldingPeriod = averageHoldingPeriod',
              totalCommissions = totalCommissions', calmarRatio = calmarRatio',
              sortinoRatio = sortinoRatio' \<rparr>))"

text \<open>
  The result of a run. The monthly returns and the streak statistics, which are computed
  from the equity curve and the trades in the server's local time zone, are left out.
\<close>

record BacktestResult =
  strategy_r :: IStrategy
  parameters_r :: BacktestParameters
  metrics :: BacktestMetrics
  trades_r :: "BacktestTrade list"
  equityCurve_r :: "EquityPoint list"

text \<open>\<open>runBacktest\<close> after the historical data has been produced.\<close>

definition runBacktestOn ::
  "BacktestParameters \<Rightarrow> BacktestData list \<Rightarrow> engine_error + BacktestResult" where
  "runBacktestOn ps historicalData =
     (let st = simulate ps historicalData
      in case finalClosedTrades ps historicalData (positions st) of
           Inl e \<Rightarrow> Inl e
         | Inr final \<Rightarrow>
             (let trades' = trades st @ final
              in Inr \<lparr> strategy_r = strategy ps, parameters_r = ps,
                       metrics = calculateMetrics trades' (equityCurve st) ps,
                       trades_r = trades', equityCurve_r = equityCurve st \<rparr>))"

subsection \<open>Mock historical data\<close>

text \<open>
  \<open>Math.random()\<close> is the only input of the engine that is not a parameter. The
  sequence of its results is made explicit: \<open>rnd k\<close> is the value of the \<open>k\<close>-th call,
  a real in \<open>[0, 1)\<close>, and every function that draws returns the index of the next call.
\<close>

type_synonym rng = "nat \<Rightarrow> real"

text \<open>The inner loop, \<open>n\<close> iterations from day \<open>i\<close> on.\<close>

fun generateDays ::
  "rng \<Rightarrow> string \<Rightarrow> int \<Rightarrow> nat \<Rightarrow> int \<Rightarrow> real \<Rightarrow> nat \<Rightarrow> BacktestData list \<times> nat" where
  "generateDays rnd symb start 0 i currentPrice' k = ([], k)"
| "generateDays rnd symb start (Suc n) i currentPrice' k =
     (let date' = start + i * 24 * 60 * 60 * 1000;
          trend = 2 / 10000;
          volatility' = 2 / 100;
          randomChange = (rnd k - 1 / 2) * 2 * volatility';
          price = currentPrice' * (1 + trend + randomChange);
          dayVolatility = volatility' * (1 / 2);
          high' = price * (1 + rnd (k + 1) * dayVolatility);
          low' = price * (1 - rnd (k + 2) * dayVolatility);
          open' = low' + rnd (k + 3) * (high' - low');
          volume' = real_of_int \<lfloor>1000000 + rnd (k + 4) * 5000000\<rfloor>;
          bar = \<lparr> timestamp = date', symbol = symb, openPrice = Num open', high = Num high',
                  low = Num low', close = Num price, volume = Num volume' \<rparr>;
          (rest, k') = generateDays rnd symb start n (i + 1) price (k + 5)
      in (bar # rest, k'))"

fun generateSymbols ::
  "rng \<Rightarrow> string list \<Rightarrow> int \<Rightarrow> nat \<Rightarrow> nat \<Rightarrow> BacktestData list \<times> nat" where
  "generateSymbols rnd [] start n k = ([], k)"
| "generateSymbols rnd (symb # rest) start n k =
     (let currentPrice' = 100 + rnd k * 200;
          (bars, k') = generateDays rnd symb start n 0 currentPrice' (k + 1);
          (more, k'') = generateSymbols rnd rest start n k'
      in (bars @ more, k''))"

definition generateHistoricalData ::
  "rng \<Rightarrow> string list \<Rightarrow> int \<Rightarrow> int \<Rightarrow> nat \<Rightarrow> BacktestData list \<times> nat" where
  "generateHistoricalData rnd symbols' startDate' endDate' k =
     (let days = \<lceil>real_of_int (endDate' - startDate') / real_of_int msPerDay\<rceil>
      in generateSymbols rnd symbols' startDate' (nat (days + 1)) k)"

definition runBacktest ::
  "BacktestParameters \<Rightarrow> rng \<Rightarrow> nat \<Rightarrow> (engine_error + BacktestResult) \<times> nat" where
  "runBacktest ps rnd k =
     (let (historicalData, k') =
            generateHistoricalData rnd (symbols ps) (startDate ps) (endDate ps) k
      in (runBacktestOn ps historicalData, k'))"

subsection \<open>Parameter optimisation\<close>

text \<open>
  A parameter range \<open>{min, max, step}\<close>. The ranges of a request are finite numbers;
  the record of ranges is the list of its entries in key order.
\<close>

record range =
  rmin :: real
  rmax :: real
  rstep :: real

text \<open>The values visited by \<open>for (value = min; value <= max; value += step)\<close>.\<close>

function rangeFrom :: "real \<Rightarrow> real \<Rightarrow> real \<Rightarrow> real list" where
  "rangeFrom v mx step = (if 0 < step \<and> v \<le> mx then v # rangeFrom (v + step) mx step else [])"
  by pat_completeness auto
termination
proof (relation "measure (\<lambda>(v, mx, step). nat (\<lfloor>(mx - v) / step\<rfloor> + 1))", goal_cases)
  case 1
  show ?case by simp
next
  case (2 v mx step)
  then have s: "0 < step" and le: "v \<le> mx" by auto
  have "(mx - (v + step)) / step = (mx - v) / step - 1"
    using s by (simp add: field_simps)
  moreover have "0 \<le> \<lfloor>(mx - v) / step\<rfloor>" using s le by simp
  ultimately show ?case by simp
qed

declare rangeFrom.simps [simp del]

text \<open>
  With a step that is not positive and \<open>min \<le> max\<close> the loop never ends: no result.
\<close>

definition rangeValues :: "range \<Rightarrow> real list option" where
  "rangeValues r =
     (if rstep r \<le> 0 \<and> rmin r \<le> rmax r then None
      else Some (rangeFrom (rmin r) (rmax r) (rstep r)))"

fun collect :: "'a list option list \<Rightarrow> 'a list option" where
  "collect [] = Some []"
| "collect (None # _) = None"
| "collect (Some xs # rest) = (case collect rest of None \<Rightarrow> None | Some ys \<Rightarrow> Some (xs @ ys))"

text \<open>
  The recursive helper of \<open>generateParameterCombinations\<close>, on the parameters that
  are left; \<open>current\<close> is the combination built so far.
\<close>

fun generateCombinations ::
  "(string \<times> range) list \<Rightarrow> (string \<times> real) list \<Rightarrow> (string \<times> real) list list option" where
  "generateCombinations [] current = Some [current]"
| "generateCombinations ((paramName, r) # rest) current =
     (case rangeValues r of
        None \<Rightarrow> None
      | Some vs \<Rightarrow>
          collect (map (\<lambda>v. generateCombinations rest (AList.update paramName v current)) vs))"

definition generateParameterCombinations ::
  "(string \<times> range) list \<Rightarrow> (string \<times> real) list list option" where
  "generateParameterCombinations ranges = generateCombinations ranges []"

record optimization =
  bestStrategy :: IStrategy
  bestMetrics :: "BacktestMetrics option"
  optimizationResults :: "((string \<times> real) list \<times> BacktestMetrics) list"

text \<open>
  The loop of \<open>optimizeStrategy\<close> over the combinations. Next to the result it threads
  the index of the next random draw and counts the backtests that were run.
\<close>

fun optimizeLoop ::
  "IStrategy \<Rightarrow> BacktestParameters \<Rightarrow> rng \<Rightarrow> (string \<times> real) list list
     \<Rightarrow> optimization \<Rightarrow> nat \<Rightarrow> nat \<Rightarrow> (engine_error + optimization) \<times> nat \<times> nat" where
  "optimizeLoop baseStrategy backtestParams rnd [] acc k runs = (Inr acc, k, runs)"
| "optimizeLoop baseStrategy backtestParams rnd (params # rest) acc k runs =
     (let testStrategy =
            baseStrategy\<lparr> parameters := parameters baseStrategy
                                          @ map (\<lambda>(key, v). (key, Num v)) params \<rparr>;
          (outcome, k') = runBacktest (backtestParams\<lparr> strategy := testStrategy \<rparr>) rnd k
      in case outcome of
           Inl e \<Rightarrow> (Inl e, k', Suc runs)
         | Inr result \<Rightarrow>
             (let acc1 = acc\<lparr> optimizationResults :=
                               optimizationResults acc @ [(params, metrics result)] \<rparr>;
                  better = (case bestMetrics acc of
                              None \<Rightarrow> True
                            | Some best \<Rightarrow> jgt (sharpeRatio (metrics result)) (sharpeRatio best));
                  acc2 = (if better
                          then acc1\<lparr> bestMetrics := Some (metrics result),
                                     bestStrategy := testStrategy \<rparr>
                          else acc1)
              in optimizeLoop baseStrategy backtestParams rnd rest acc2 k' (Suc runs)))"

definition optimizeStrategy ::
  "IStrategy \<Rightarrow> (string \<times> range) list \<Rightarrow> BacktestParameters \<Rightarrow> rng \<Rightarrow> nat
     \<Rightarrow> ((engine_error + optimization) \<times> nat \<times> nat) option" where
  "optimizeStrategy baseStrategy parameterRanges backtestParams rnd k =
     (case generateParameterCombinations parameterRanges of
        None \<Rightarrow> None
      | Some parameterCombinations \<Rightarrow>
          Some (optimizeLoop baseStrategy backtestParams rnd parameterCombinations
                  \<lparr> bestStrategy = baseStrategy, bestMetrics = None, optimizationResults = [] \<rparr>
                  k 0))"

section \<open>Optimisation route (src/app/api/backtest/optimize/route.ts)\<close>

datatype metric = SharpeRatioMetric | TotalReturnMetric | ProfitFactorMetric | CalmarRatioMetric

fun metricOf :: "metric \<Rightarrow> BacktestMetrics \<Rightarrow> jsnum" where
  "metricOf SharpeRatioMetric m = sharpeRatio m"
| "metricOf TotalReturnMetric m = totalReturn m"
| "metricOf ProfitFactorMetric m = profitFactor m"
| "metricOf CalmarRatioMetric m = calmarRatio m"

text \<open>The parsed request body; the dates are the time values of the date-time texts.\<close>

record optimize_body =
  strategyId :: string
  startDate_b :: int
  endDate_b :: int
  initialCapital_b :: real
  symbols_b :: "string list"
  commission_b :: "real option"
  slippage_b :: "real option"
  maxPositions_b :: "real option"
  parameterRanges :: "(string \<times> range) list"
  optimizationMetric :: "metric option"

text \<open>The checks of \<open>optimizeSchema\<close> on the numbers of the body.\<close>

definition inRange :: "real \<Rightarrow> real \<Rightarrow> real option \<Rightarrow> bool" where
  "inRange lo hi v = (case v of None \<Rightarrow> True | Some x \<Rightarrow> lo \<le> x \<and> x \<le> hi)"

definition optimizeSchema :: "optimize_body \<Rightarrow> bool" where
  "optimizeSchema b \<longleftrightarrow>
     0 < initialCapital_b b \<and> initialCapital_b b \<le> 10000000
     \<and> 1 \<le> length (symbols_b b) \<and> length (symbols_b b) \<le> 10
     \<and> inRange 0 100 (commission_b b)
     \<and> inRange 0 5 (slippage_b b)
     \<and> inRange 1 20 (maxPositions_b b)
     \<and> (case maxPositions_b b of None \<Rightarrow> True | Some x \<Rightarrow> is_int x)
     \<and> list_all (\<lambda>(name, r). 0 < rstep r) (parameterRanges b)"

text \<open>What the handler reads besides the body: the session and the stored strategy.\<close>

record stored_strategy =
  userId :: string
  document :: IStrategy

record optimize_env =
  sessionUser :: "string option"
  findById :: "string \<Rightarrow> stored_strategy option"

text \<open>\<open>Number(x.toFixed(d))\<close>: rounding to \<open>d\<close> decimals, halves away from zero.\<close>

fun roundTo :: "nat \<Rightarrow> jsnum \<Rightarrow> jsnum" where
  "roundTo d (Num x) =
     (if 10 ^ 21 \<le> \<bar>x\<bar> then Num x
      else Num (sgn x * real_of_int \<lfloor>\<bar>x\<bar> * 10 ^ d + 1 / 2\<rfloor> / 10 ^ d))"
| "roundTo d x = x"

record reported_metrics =
  totalReturn_o :: jsnum
  totalReturnPercent_o :: jsnum
  annualizedReturn_o :: jsnum
  sharpeRatio_o :: jsnum
  maxDrawdownPercent_o :: jsnum
  volatility_o :: jsnum
  totalTrades_o :: nat
  winRate_o :: jsnum
  profitFactor_o :: jsnum
  calmarRatio_o :: jsnum
  sortinoRatio_o :: jsnum

definition report :: "BacktestMetrics \<Rightarrow> reported_metrics" where
  "report m =
     \<lparr> totalReturn_o = roundTo 2 (totalReturn m),
       totalReturnPercent_o = roundTo 2 (totalReturnPercent m),
       annualizedReturn_o = roundTo 2 (annualizedReturn m),
       sharpeRatio_o = roundTo 3 (sharpeRatio m),
       maxDrawdownPercent_o = roundTo 2 (maxDrawdownPercent m),
       volatility_o = roundTo 2 (volatility m),
       totalTrades_o = totalTrades m,
       winRate_o = roundTo 1 (winRate m),
       profitFactor_o = roundTo 2 (profitFactor m),
       calmarRatio_o = roundTo 3 (calmarRatio m),
       sortinoRatio_o = roundTo 3 (sortinoRatio m) \<rparr>"

text \<open>
  The response data. The improvement over the current parameters, the recommendation
  texts, the parameter sensitivity and the time stamp are left out.
\<close>

record optimize_data =
  totalCombinationsTested :: nat
  optimizationMetric_o :: metric
  bestParameters :: "(string \<times> jsnum) list"
  bestMetrics_o :: reported_metrics
  topResults :: "((string \<times> real) list \<times> reported_metrics) list"

datatype response =
    Unauthorized
  | InvalidRequest
  | StrategyNotFound
  | AccessDenied
  | TooManyCombinations
  | StartNotBeforeEnd
  | PeriodTooLong
  | PeriodTooShort
  | FailedToOptimize
  | Success optimize_data

text \<open>
  \<open>results.sort((a, b) => b.metrics[m] - a.metrics[m])\<close>. The sort is stable; it is
  written as the insertion sort driven by the comparator, which is the result of every
  stable sort when the comparator is consistent.
\<close>

definition compareResults ::
  "metric \<Rightarrow> 'a \<times> BacktestMetrics \<Rightarrow> 'a \<times> BacktestMetrics \<Rightarrow> jsnum" where
  "compareResults m a b = jsub (metricOf m (snd b)) (metricOf m (snd a))"

fun insertBy :: "('a \<Rightarrow> 'a \<Rightarrow> jsnum) \<Rightarrow> 'a \<Rightarrow> 'a list \<Rightarrow> 'a list" where
  "insertBy cmp x [] = [x]"
| "insertBy cmp x (y # ys) =
     (if jgt (cmp x y) (Num 0) then y # insertBy cmp x ys else x # y # ys)"

definition sortBy :: "('a \<Rightarrow> 'a \<Rightarrow> jsnum) \<Rightarrow> 'a list \<Rightarrow> 'a list" where
  "sortBy cmp xs = foldr (insertBy cmp) xs []"

text \<open>The product that the handler compares with 100.\<close>

definition totalCombinations :: "(string \<times> range) list \<Rightarrow> int" where
  "totalCombinations ranges =
     foldl (\<lambda>total (name, r). total * (\<lfloor>(rmax r - rmin r) / rstep r\<rfloor> + 1)) 1 ranges"

definition orElse :: "'a \<Rightarrow> 'a option \<Rightarrow> 'a" where
  "orElse d v = (case v of None \<Rightarrow> d | Some x \<Rightarrow> x)"

text \<open>
  The handler. The result is the response, the index of the next random draw and the
  number of backtests that were run; there is none when the optimisation never returns.
  A failure inside the \<open>try\<close> block, such as reading a field of the missing best
  metrics, gives the response of the \<open>catch\<close> block.
\<close>

definition POST ::
  "optimize_env \<Rightarrow> optimize_body \<Rightarrow> rng \<Rightarrow> nat \<Rightarrow> (response \<times> nat \<times> nat) option" where
  "POST env b rnd k =
     (case sessionUser env of
        None \<Rightarrow> Some (Unauthorized, k, 0)
      | Some user \<Rightarrow>
          if \<not> optimizeSchema b then Some (InvalidRequest, k, 0)
          else
            (case findById env (strategyId b) of
               None \<Rightarrow> Some (StrategyNotFound, k, 0)
             | Some stored \<Rightarrow>
                 if userId stored \<noteq> user then Some (AccessDenied, k, 0)
                 else if 100 < totalCombinations (parameterRanges b)
                 then Some (TooManyCombinations, k, 0)
                 else if endDate_b b \<le> startDate_b b then Some (StartNotBeforeEnd, k, 0)
                 else
                   (let daysDifference =
                          real_of_int (endDate_b b - startDate_b b) / real_of_int msPerDay
                    in if 730 < daysDifference then Some (PeriodTooLong, k, 0)
                       else if daysDifference < 60 then Some (PeriodTooShort, k, 0)
                       else
                         (case optimizeStrategy (document stored) (parameterRanges b)
                                 \<lparr> strategy = document stored,
                                   startDate = startDate_b b, endDate = endDate_b b,
                                   initialCapital = Num (initialCapital_b b),
                                   symbols = symbols_b b,
                                   commission = Num (orElse 5 (commission_b b)),
                                   slippage = Num (orElse (1 / 10) (slippage_b b)),
                                   maxPositions = Num (orElse 10 (maxPositions_b b)) \<rparr>
                                 rnd k of
                            None \<Rightarrow> None
                          | Some (Inl e, k', runs) \<Rightarrow> Some (FailedToOptimize, k', runs)
                          | Some (Inr optimizationResult, k', runs) \<Rightarrow>
                              (let m = orElse SharpeRatioMetric (optimizationMetric b);
                                   sortedResults =
                                     sortBy (compareResults m)
                                       (optimizationResults optimizationResult)
                               in case bestMetrics optimizationResult of
                                    None \<Rightarrow> Some (FailedToOptimize, k', runs)
                                  | Some best \<Rightarrow>
                                      Some (Success
                                              \<lparr> totalCombinationsTested = length sortedResults,
                                                optimizationMetric_o = m,
                                                bestParameters =
                                                  parameters (bestStrategy optimizationResult),
                                                bestMetrics_o = report best,
                                                topResults =
                                                  map (\<lambda>(params, ms). (params, report ms))
                                                      (take 20 sortedResults) \<rparr>,
                                            k', runs))))))"

section \<open>Notions used in the statements\<close>

subsection \<open>Quotes and exits\<close>

text \<open>No usable quote: no bar of the symbol that day, or a bar whose close is 0.\<close>

definition noQuote :: "BacktestData list \<Rightarrow> BacktestPosition \<Rightarrow> bool" where
  "noQuote dayData pos =
     (case find (\<lambda>d. symbol d = symbol_p pos) dayData of
        None \<Rightarrow> True | Some d \<Rightarrow> close d = Num 0)"





text \<open>The state of the run after the first \<open>n\<close> days.\<close>

definition stateAfter :: "BacktestParameters \<Rightarrow> BacktestData list \<Rightarrow> nat \<Rightarrow> sim_state" where
  "stateAfter ps historicalData n =
     foldl (processDay ps historicalData)
       \<lparr> currentCapital = initialCapital ps, positions = [], trades = [], equityCurve = [] \<rparr>
       (take n (dates historicalData))"



text \<open>The bar is one of the symbol and none of the symbol is later.\<close>

definition lastBarOf :: "BacktestData list \<Rightarrow> string \<Rightarrow> BacktestData \<Rightarrow> bool" where
  "lastBarOf historicalData symb fd \<longleftrightarrow>
     fd \<in> set historicalData \<and> symbol fd = symb
     \<and> (\<forall>d \<in> set historicalData. symbol d = symb \<longrightarrow> timestamp d \<le> timestamp fd)"

subsection \<open>Grid size and the other checks of the handler\<close>




subsection \<open>Draws, results and drawdown from the peak\<close>

text \<open>The number of draws that one run makes.\<close>

definition drawsNeeded :: "BacktestParameters \<Rightarrow> nat" where
  "drawsNeeded ps =
     length (symbols ps)
       * (1 + 5 * nat (\<lceil>real_of_int (endDate ps - startDate ps) / real_of_int msPerDay\<rceil> + 1))"

definition resultCurve :: "engine_error + BacktestResult \<Rightarrow> EquityPoint list" where
  "resultCurve out = (case out of Inl e \<Rightarrow> [] | Inr r \<Rightarrow> equityCurve_r r)"

text \<open>
  Drawdown in the words of the specification: the running peak of the equity up to and
  including point \<open>i\<close>, minus the equity of point \<open>i\<close>, floored at 0.
\<close>

definition runningPeak :: "jsnum list \<Rightarrow> nat \<Rightarrow> jsnum" where
  "runningPeak es i = jmaxList NegInf (take (Suc i) es)"

definition peakDrawdown :: "jsnum list \<Rightarrow> nat \<Rightarrow> jsnum" where
  "peakDrawdown es i = jmax (Num 0) (jsub (runningPeak es i) (es ! i))"

section \<open>Concrete inputs\<close>

subsection \<open>Bars, positions and requests\<close>

definition flatBar :: BacktestData where
  "flatBar = \<lparr> timestamp = 0, symbol = ''AAPL'', openPrice = Num 100, high = Num 100,
               low = Num 100, close = Num 100, volume = Num 1000000 \<rparr>"

definition heldPosition :: BacktestPosition where
  "heldPosition = \<lparr> symbol_p = ''MSFT'', side_p = LONG, entryPrice = Num 50, entryDate = 0,
                     quantity = Num 20, stopLoss = Some (Num (95 / 2)),
                     takeProfit = Some (Num (115 / 2)), value_p = Num 1005 \<rparr>"

definition plainParameters :: BacktestParameters where
  "plainParameters =
     \<lparr> strategy = \<lparr> strategyName = ''ma-crossover'', parameters = [] \<rparr>,
       startDate = 0, endDate = 30 * msPerDay, initialCapital = Num 100000,
       symbols = [''AAPL''], commission = Num 5, slippage = Num (1 / 10),
       maxPositions = Num 1 \<rparr>"

definition flatCurve :: "EquityPoint list" where
  "flatCurve = map (\<lambda>k. \<lparr> date = k * msPerDay, equity = Num 100000, drawdown = Num 0,
                              drawdownPercent = Num 0 \<rparr>) [0, 1, 2]"

definition breakEvenTrade :: BacktestTrade where
  "breakEvenTrade =
     \<lparr> symbol_t = ''AAPL'', side_t = LONG, entryPrice_t = Num 100, exitPrice = Num 100,
       entryDate_t = 0, exitDate = 2 * msPerDay, quantity_t = Num 10, profit = Num 0,
       profitPercent = Num 0, commission_t = Num 0, holdingPeriod = Num 2,
       reason = END_OF_PERIOD \<rparr>"


definition okEnv :: optimize_env where
  "okEnv =
     \<lparr> sessionUser = Some ''u1'',
       findById = (\<lambda>sid. if sid = ''s1''
                         then Some \<lparr> userId = ''u1'',
                                     document = \<lparr> strategyName = ''ma-crossover'',
                                                  parameters = [] \<rparr> \<rparr>
                         else None) \<rparr>"





subsection \<open>Runs on one symbol with prescribed price moves\<close>

text \<open>
  The factor by which a draw \<open>r\<close> moves the price, and the close of day \<open>d\<close> when the
  starting price is \<open>p\<close> and the draw that moves the price on day \<open>t\<close> is \<open>chg t\<close>.
\<close>

definition changeFactor :: "real \<Rightarrow> real" where
  "changeFactor r = 1 + 2 / 10000 + (r - 1 / 2) * 2 * (2 / 100)"

primrec pricePath :: "real \<Rightarrow> (nat \<Rightarrow> real) \<Rightarrow> nat \<Rightarrow> real" where
  "pricePath p chg 0 = p * changeFactor (chg 0)"
| "pricePath p chg (Suc d) = pricePath p chg d * changeFactor (chg (Suc d))"

text \<open>The bar of day \<open>d\<close> with all four prices at \<open>c\<close>, and the bars of the first \<open>n\<close> days.\<close>

definition dayBar :: "nat \<Rightarrow> real \<Rightarrow> BacktestData" where
  "dayBar d c = \<lparr> timestamp = int d * 24 * 60 * 60 * 1000, symbol = ''AAPL'', openPrice = Num c,
                  high = Num c, low = Num c, close = Num c, volume = Num 1000000 \<rparr>"

definition barsOf :: "(nat \<Rightarrow> real) \<Rightarrow> nat \<Rightarrow> BacktestData list" where
  "barsOf cl n = map (\<lambda>d. dayBar d (cl d)) [0 ..< n]"

text \<open>
  Draws for one run on one symbol, from index \<open>k0\<close> on: the first gives the starting
  price \<open>100 + 200 * start\<close>; of the five draws of day \<open>d\<close> the first is \<open>chg d\<close> and the
  other four are 0, so that high, low and open equal the close.
\<close>

definition drawsFor :: "nat \<Rightarrow> real \<Rightarrow> (nat \<Rightarrow> real) \<Rightarrow> rng \<Rightarrow> rng" where
  "drawsFor k0 start chg other k =
     (if k < k0 then other k
      else if k = k0 then start
      else if (k - k0) mod 5 = 1 then chg ((k - k0) div 5)
      else 0)"

subsection \<open>A run that enters on the twentieth bar\<close>

text \<open>
  The draw that moves the price: -1% on day 9, +1% on days 10 and 20, -0.5% on day 21,
  no move on the other days.
\<close>

definition changeDraw :: "nat \<Rightarrow> real" where
  "changeDraw d =
     (if d = 9 then 245 / 1000
      else if d = 10 \<or> d = 20 then 745 / 1000
      else if d = 21 then 37 / 100
      else 495 / 1000)"

definition dipClose :: "nat \<Rightarrow> real" where
  "dipClose = pricePath 100 changeDraw"

definition dipPosition :: BacktestPosition where
  "dipPosition =
     \<lparr> symbol_p = ''AAPL'', side_p = LONG, entryPrice = Num (9999 / 100),
       entryDate = 86400000 * 19, quantity = Num 100,
       stopLoss = Some (Num (949905 / 10000)), takeProfit = Some (Num (1149885 / 10000)),
       value_p = Num 9999 \<rparr>"

text \<open>The parameters of the run that matter: capital 100000, no costs, one position.\<close>

definition dipSetup :: "BacktestParameters \<Rightarrow> bool" where
  "dipSetup ps \<longleftrightarrow>
     initialCapital ps = Num 100000 \<and> commission ps = Num 0 \<and> slippage ps = Num 0
     \<and> maxPositions ps = Num 1"

definition dipEquity :: "nat \<Rightarrow> real" where
  "dipEquity d =
     (if d < 20 then 100000 else if d = 20 then 10009999 / 100 else 10004949505 / 100000)"

definition dipPoint :: "nat \<Rightarrow> EquityPoint" where
  "dipPoint d = \<lparr> date = 86400000 * int d, equity = Num (dipEquity d), drawdown = Num 0,
                   drawdownPercent = Num 0 \<rparr>"

text \<open>The trade that closes the position at the end of the period.\<close>

definition dipTrade :: "BacktestParameters \<Rightarrow> BacktestTrade" where
  "dipTrade ps =
     closePosition dipPosition (Num (1004849505 / 10000000)) (endDate ps) END_OF_PERIOD ps"

text \<open>The daily return of the run with the dip from day \<open>d\<close> to the next.\<close>

definition dipReturn :: "nat \<Rightarrow> real" where
  "dipReturn d = (dipEquity (Suc d) - dipEquity d) / dipEquity d"

subsection \<open>A run on a flat price\<close>

definition flatDraw :: "nat \<Rightarrow> real" where
  "flatDraw d = 495 / 1000"

definition flatPoint :: "nat \<Rightarrow> EquityPoint" where
  "flatPoint d = \<lparr> date = 86400000 * int d, equity = Num 100000, drawdown = Num 0,
                    drawdownPercent = Num 0 \<rparr>"

subsection \<open>A backtest of 31 bars and an optimisation of two runs\<close>

text \<open>
  A backtest over 30 days, that is 31 bars of one symbol, and two sequences of draws for
  it: one with the dip and the recovery, one with a flat price.
\<close>

definition dipParameters :: BacktestParameters where
  "dipParameters =
     \<lparr> strategy = \<lparr> strategyName = ''ma-crossover'', parameters = [] \<rparr>,
       startDate = 0, endDate = 30 * msPerDay, initialCapital = Num 100000,
       symbols = [''AAPL''], commission = Num 0, slippage = Num 0,
       maxPositions = Num 1 \<rparr>"

definition dipDraws :: rng where
  "dipDraws = drawsFor 0 0 changeDraw (\<lambda>k. 0)"

definition flatDraws :: rng where
  "flatDraws = drawsFor 0 0 flatDraw (\<lambda>k. 0)"

definition dipDrawsThen :: rng where
  "dipDrawsThen k = (if k < 156 then dipDraws k else 1 / 2)"

text \<open>
  Draws for two runs of 61 bars: the first run sees the flat price, the second the dip
  and the recovery.
\<close>

definition twoRunDraws :: rng where
  "twoRunDraws = drawsFor 306 0 changeDraw (drawsFor 0 0 flatDraw (\<lambda>k. 0))"

text \<open>
  A request over 60 days for a grid of two combinations, ranked by total return.
\<close>

definition twoBody :: optimize_body where
  "twoBody =
     \<lparr> strategyId = ''s1'', startDate_b = 0, endDate_b = 60 * msPerDay,
       initialCapital_b = 100000, symbols_b = [''AAPL''], commission_b = Some 0,
       slippage_b = Some 0, maxPositions_b = Some 1,
       parameterRanges = [(''shortPeriod'', \<lparr> rmin = 5, rmax = 6, rstep = 1 \<rparr>)],
       optimizationMetric = Some TotalReturnMetric \<rparr>"

text \<open>The parameters of the run for the value \<open>v\<close> of the parameter.\<close>

definition twoParameters :: "real \<Rightarrow> BacktestParameters" where
  "twoParameters v =
     \<lparr> strategy = \<lparr> strategyName = ''ma-crossover'', parameters = [(''shortPeriod'', Num v)] \<rparr>,
       startDate = 0, endDate = 60 * msPerDay, initialCapital = Num 100000,
       symbols = [''AAPL''], commission = Num 0, slippage = Num 0,
       maxPositions = Num 1 \<rparr>"

definition dipMetrics :: BacktestMetrics where
  "dipMetrics =
     calculateMetrics [dipTrade (twoParameters 6)] (map dipPoint [0 ..< 61]) (twoParameters 6)"


section \<open>Verified properties\<close>

subsection \<open>Risk sizing\<close>







text \<open>
  Claim C9. For entry 100, stop 95, portfolio value 100000, 2% risk per trade, MEDIUM
  tolerance and the default volatility, the risk amount is 2000 and the base share count
  400; the volatility factor 1.5 gives 600 shares, the 20% cap then 200 shares, and the
  returned result is the one computed from these.
\<close>

theorem sizing_scenario:
  "riskAmount_of sizingScenario = Num 2000
   \<and> baseShares_of sizingScenario = Num 400
   \<and> volatilityAdjustment_of sizingScenario = Num (3 / 2)
   \<and> adjustedShares_of sizingScenario = Num 600
   \<and> calculatePositionSize defaultParameters sizingScenario =
       \<lparr> recommendedShares = Num 200, recommendedValue = Num 20000,
         riskAmount = Num 1000, riskPercent = Num 1, positionSizePercent = Num 20,
         stopLossDistance = Num 5,
         warnings = [Tpl ''Position size reduced to '' (Num 20) ''% limit''],
         adjustments = [Str ''Consider reducing position size or increasing stop-loss distance''] \<rparr>"
  by (simp add: sizingScenario_def calculatePositionSize_def limitStep_def correlationStep_def
        defaultParameters_def adjustedValue_of_def adjustedShares_of_def baseShares_of_def
        riskAmount_of_def priceRisk_of_def adjustedRiskPerTrade_of_def volatilityAdjustment_of_def
        stopLossDistance_of_def volatility_of_def correlation_of_def
        jsub_def jmax_def jmin_def jgt_def Let_def)

subsection \<open>Arithmetic on numbers\<close>

lemma jsub_Num [simp]: "jsub (Num a) (Num b) = Num (a - b)"
  by (simp add: jsub_def)

lemma jgt_Num [simp]: "jgt (Num a) (Num b) \<longleftrightarrow> b < a"
  by (simp add: jgt_def)

lemma jge_Num [simp]: "jge (Num a) (Num b) \<longleftrightarrow> b \<le> a"
  by (simp add: jge_def)

lemma jmax_Num [simp]: "jmax (Num a) (Num b) = Num (max a b)"
  by (simp add: jmax_def max_def)

lemma jmin_Num [simp]: "jmin (Num a) (Num b) = Num (min a b)"
  by (simp add: jmin_def min_def)

lemma jsum_Nil [simp]: "jsum [] = Num 0"
  by (simp add: jsum_def)

subsection \<open>Signals, quotes and ratios\<close>

text \<open>
  Claim C7. With fewer than 20 bars of history the generator returns the HOLD signal
  with strength 0 and the reasoning text 'Insufficient historical data'; the function
  has no failing path.
\<close>

theorem insufficient_history_hold:
  assumes "length historicalData < 20"
  shows "generateTradingSignal currentData strat historicalData =
           \<lparr> type_s = HOLD, strength = Num 0, price_s = close currentData,
             timestamp_s = timestamp currentData,
             reasoning = Str ''Insufficient historical data'' \<rparr>"
  using assms by (simp add: generateTradingSignal_def)

theorem insufficient_history_hold_witness:
  "length (replicate 19 flatBar) < 20
   \<and> generateTradingSignal flatBar \<lparr> strategyName = ''s'', parameters = [] \<rparr> (replicate 19 flatBar) =
       \<lparr> type_s = HOLD, strength = Num 0, price_s = Num 100, timestamp_s = 0,
         reasoning = Str ''Insufficient historical data'' \<rparr>"
proof -
  have h: "length (replicate 19 flatBar) < 20" by simp
  show ?thesis
    using h insufficient_history_hold[OF h, of flatBar "\<lparr> strategyName = ''s'', parameters = [] \<rparr>"]
    by (simp add: flatBar_def)
qed

lemma currentPrice_noQuote: "noQuote dayData pos \<Longrightarrow> currentPrice dayData pos = entryPrice pos"
  by (auto simp: noQuote_def currentPrice_def split: option.splits)

lemma foldl_cong_set:
  "(\<And>a x. x \<in> set xs \<Longrightarrow> f a x = g a x) \<Longrightarrow> foldl f a xs = foldl g a xs"
  by (induction xs arbitrary: a) auto

text \<open>
  Claim C10. In the daily equity computation a position whose symbol has no bar that
  day, or whose bar closes at 0, is valued at its entry price; when that holds for all
  open positions the equity is the cash plus the sum of quantity times entry price.
\<close>

theorem missing_quote_marked_at_entry:
  "(noQuote dayData pos \<longrightarrow> currentPrice dayData pos = entryPrice pos)
   \<and> ((\<forall>p \<in> set positions'. noQuote dayData p) \<longrightarrow>
        equity (equityPoint ps date' capital positions' dayData)
          = jadd capital (foldl (\<lambda>sum p. jadd sum (jmul (quantity p) (entryPrice p))) (Num 0) positions'))"
proof -
  have "positionValue dayData positions'
          = foldl (\<lambda>sum p. jadd sum (jmul (quantity p) (entryPrice p))) (Num 0) positions'"
    if "\<forall>p \<in> set positions'. noQuote dayData p"
    unfolding positionValue_def
    by (rule foldl_cong_set) (use that in \<open>simp add: currentPrice_noQuote\<close>)
  then show ?thesis
    by (simp add: currentPrice_noQuote equityPoint_def Let_def)
qed

theorem missing_quote_marked_at_entry_witness:
  "noQuote [flatBar] heldPosition
   \<and> noQuote [flatBar\<lparr> symbol := ''MSFT'', close := Num 0 \<rparr>] heldPosition
   \<and> currentPrice [flatBar] heldPosition = Num 50
   \<and> equity (equityPoint plainParameters 0 (Num 98995) [heldPosition] [flatBar]) = Num 99995"
proof -
  have n: "noQuote [flatBar] heldPosition"
    and z: "noQuote [flatBar\<lparr> symbol := ''MSFT'', close := Num 0 \<rparr>] heldPosition"
    by (simp_all add: noQuote_def flatBar_def heldPosition_def)
  have a: "\<forall>p \<in> set [heldPosition]. noQuote [flatBar] p" using n by simp
  show ?thesis
    using n z a
      missing_quote_marked_at_entry[of "[flatBar]" heldPosition "[heldPosition]"
        plainParameters 0 "Num 98995"]
    by (simp add: heldPosition_def)
qed

text \<open>
  Claim C8. For a nonempty trade list and equity curve: the Sharpe ratio is 0 when the
  volatility of the daily returns is 0; the downside deviation is 0 when there is no
  negative daily return, and the Sortino ratio is 0 when the downside deviation is 0;
  the Calmar ratio is 0 when the maximum drawdown percent is 0.
\<close>

theorem ratios_zero_on_zero_denominator:
  assumes "trades' \<noteq> []" and "curve \<noteq> []"
  shows "(calculateVolatility (dailyReturns_of curve) = Num 0
            \<longrightarrow> sharpeRatio (calculateMetrics trades' curve ps) = Num 0)
       \<and> (filter (\<lambda>r. jlt r (Num 0)) (dailyReturns_of curve) = []
            \<longrightarrow> downsideVolatility_of curve = Num 0)
       \<and> (downsideVolatility_of curve = Num 0
            \<longrightarrow> sortinoRatio (calculateMetrics trades' curve ps) = Num 0)
       \<and> (maxDrawdownPercent (calculateMetrics trades' curve ps) = Num 0
            \<longrightarrow> calmarRatio (calculateMetrics trades' curve ps) = Num 0)"
  using assms
  by (simp add: calculateMetrics_def downsideVolatility_of_def Let_def jgt_def)

lemma flatCurve_returns: "dailyReturns_of flatCurve = [Num 0, Num 0]"
  by (simp add: dailyReturns_of_def flatCurve_def consecutive_def)

theorem ratios_zero_on_zero_denominator_witness:
  "[breakEvenTrade] \<noteq> [] \<and> flatCurve \<noteq> []
   \<and> calculateVolatility (dailyReturns_of flatCurve) = Num 0
   \<and> filter (\<lambda>r. jlt r (Num 0)) (dailyReturns_of flatCurve) = []
   \<and> maxDrawdownPercent (calculateMetrics [breakEvenTrade] flatCurve plainParameters) = Num 0
   \<and> sharpeRatio (calculateMetrics [breakEvenTrade] flatCurve plainParameters) = Num 0
   \<and> sortinoRatio (calculateMetrics [breakEvenTrade] flatCurve plainParameters) = Num 0
   \<and> calmarRatio (calculateMetrics [breakEvenTrade] flatCurve plainParameters) = Num 0"
proof -
  have t: "[breakEvenTrade] \<noteq> []" and c: "flatCurve \<noteq> []"
    by (simp_all add: flatCurve_def)
  have v: "calculateVolatility (dailyReturns_of flatCurve) = Num 0"
    by (simp add: flatCurve_returns calculateVolatility_def jsum_def jsub_def)
  have d: "filter (\<lambda>r. jlt r (Num 0)) (dailyReturns_of flatCurve) = []"
    by (simp add: flatCurve_returns)
  have m: "maxDrawdownPercent (calculateMetrics [breakEvenTrade] flatCurve plainParameters) = Num 0"
    by (simp add: calculateMetrics_def Let_def flatCurve_def jmaxList_def jmax_def)
  show ?thesis
    using t c v d m ratios_zero_on_zero_denominator[OF t c, of plainParameters]
    by simp
qed

subsection \<open>Exits\<close>












lemma stateAfter_all: "stateAfter ps data (length (dates data)) = simulate ps data"
  by (simp add: stateAfter_def simulate_def)

lemma stateAfter_Suc:
  assumes "n < length (dates data)"
  shows "stateAfter ps data (Suc n) = processDay ps data (stateAfter ps data n) (dates data ! n)"
  using assms by (simp add: stateAfter_def take_Suc_conv_app_nth)

lemma finalData_last:
  assumes "finalData data symb = Some fd"
  shows "lastBarOf data symb fd"
proof -
  let ?xs = "filter (\<lambda>d. symbol d = symb) data"
  let ?ys = "sort_key (\<lambda>d. - timestamp d) ?xs"
  obtain rest where ys: "?ys = fd # rest"
    using assms by (auto simp: finalData_def split: list.splits)
  have "fd \<in> set ?ys" using ys by simp
  then have mem: "fd \<in> set data" "symbol fd = symb" by auto
  have "sorted (map (\<lambda>d. - timestamp d) ?ys)" by (rule sorted_sort_key)
  then have "\<forall>y \<in> set rest. - timestamp fd \<le> - timestamp y" using ys by simp
  moreover have "set ?xs = set ?ys" by simp
  ultimately have "\<forall>d \<in> set ?xs. timestamp d \<le> timestamp fd"
    unfolding ys by auto
  then show ?thesis using mem by (auto simp: lastBarOf_def)
qed

lemma finalData_exists:
  assumes "\<exists>d \<in> set data. symbol d = symb"
  shows "\<exists>fd. finalData data symb = Some fd"
proof -
  let ?xs = "filter (\<lambda>d. symbol d = symb) data"
  have "?xs \<noteq> []" using assms by (auto simp: filter_empty_conv)
  then have "length (sort_key (\<lambda>d. - timestamp d) ?xs) \<noteq> 0" by simp
  then show ?thesis
    by (cases "sort_key (\<lambda>d. - timestamp d) ?xs") (auto simp: finalData_def)
qed




subsection \<open>The combinations of a grid\<close>





subsection \<open>A run always returns\<close>





subsection \<open>The count of backtests\<close>














subsection \<open>Generated data\<close>

lemma drawsFor_day:
  "drawsFor k0 s chg other (k0 + 1 + 5 * d) = chg d"
  "drawsFor k0 s chg other (k0 + 1 + 5 * d + 1) = 0"
  "drawsFor k0 s chg other (k0 + 1 + 5 * d + 2) = 0"
  "drawsFor k0 s chg other (k0 + 1 + 5 * d + 3) = 0"
  "drawsFor k0 s chg other (k0 + 1 + 5 * d + 4) = 0"
  "drawsFor k0 s chg other k0 = s"
proof -
  have m: "Suc (5 * d) div 5 = d" "Suc (5 * d) mod 5 = 1"
          "Suc (Suc (5 * d)) mod 5 = 2" "Suc (Suc (Suc (5 * d))) mod 5 = 3"
          "Suc (Suc (Suc (Suc (5 * d)))) mod 5 = 4" "Suc (Suc (Suc (Suc (Suc (5 * d))))) mod 5 = 0"
    by presburger+
  show "drawsFor k0 s chg other (k0 + 1 + 5 * d) = chg d"
       "drawsFor k0 s chg other (k0 + 1 + 5 * d + 1) = 0"
       "drawsFor k0 s chg other (k0 + 1 + 5 * d + 2) = 0"
       "drawsFor k0 s chg other (k0 + 1 + 5 * d + 3) = 0"
       "drawsFor k0 s chg other (k0 + 1 + 5 * d + 4) = 0"
       "drawsFor k0 s chg other k0 = s"
    by (simp_all add: drawsFor_def m)
qed

lemma generateDays_path:
  "generateDays (drawsFor k0 s chg other) ''AAPL'' 0 n (int d)
      (if d = 0 then p else pricePath p chg (d - 1)) (k0 + 1 + 5 * d)
     = (map (\<lambda>j. dayBar j (pricePath p chg j)) [d ..< d + n], k0 + 1 + 5 * (d + n))"
proof (induction n arbitrary: d)
  case 0
  then show ?case by simp
next
  case (Suc n)
  have price: "(if d = 0 then p else pricePath p chg (d - 1)) * changeFactor (chg d) = pricePath p chg d"
    by (cases d) simp_all
  have next_k: "k0 + 1 + 5 * d + 5 = k0 + 1 + 5 * Suc d" by simp
  have IH: "generateDays (drawsFor k0 s chg other) ''AAPL'' 0 n (int d + 1) (pricePath p chg d)
              (k0 + 1 + 5 * Suc d)
            = (map (\<lambda>j. dayBar j (pricePath p chg j)) [Suc d ..< Suc d + n], k0 + 1 + 5 * (Suc d + n))"
    using Suc.IH[of "Suc d"] by (simp add: add.commute)
  have upt: "[d ..< d + Suc n] = d # [Suc d ..< Suc d + n]"
    by (simp add: upt_conv_Cons)
  show ?case
    unfolding generateDays.simps Let_def drawsFor_day upt
    using price IH
    by (simp add: changeFactor_def dayBar_def next_k del: upt_Suc)
qed

lemma generateHistoricalData_path:
  "generateHistoricalData (drawsFor k0 s chg other) [''AAPL''] 0 (int D * msPerDay) k0
     = (barsOf (pricePath (100 + s * 200) chg) (Suc D), k0 + 1 + 5 * Suc D)"
proof -
  have days: "\<lceil>real_of_int (int D * msPerDay - 0) / real_of_int msPerDay\<rceil> = int D"
    by (simp add: msPerDay_def)
  have "nat (int D + 1) = Suc D" by simp
  then show ?thesis
    using generateDays_path[of k0 s chg other "Suc D" 0 "100 + s * 200"]
    unfolding generateHistoricalData_def Let_def days
    by (simp add: drawsFor_day barsOf_def)
qed

lemma dateKey_day [simp]: "dateKey (86400000 * int d) = int d"
  by (simp add: dateKey_def msPerDay_def)

lemma filter_upt_eq: "d < n \<Longrightarrow> filter (\<lambda>j. j = d) [0 ..< n] = [d]"
  by (induction n) (auto simp: less_Suc_eq filter_empty_conv)

lemma filter_upt_le: "d < n \<Longrightarrow> filter (\<lambda>j. j \<le> d) [0 ..< n] = [0 ..< Suc d]"
proof (induction n)
  case 0
  then show ?case by simp
next
  case (Suc n)
  show ?case
  proof (cases "d = n")
    case True
    have "filter (\<lambda>j. j \<le> n) [0 ..< n] = [0 ..< n]" by (simp add: filter_id_conv)
    then show ?thesis using True by simp
  next
    case False
    then show ?thesis using Suc by simp
  qed
qed

lemma dates_barsOf: "dates (barsOf cl n) = map int [0 ..< n]"
proof -
  have "map (\<lambda>item. dateKey (timestamp item)) (barsOf cl n) = map int [0 ..< n]"
    by (simp add: barsOf_def dayBar_def comp_def)
  moreover have "distinct (map int [0 ..< n])" by (simp add: distinct_map)
  moreover have "sorted (map int [0 ..< n])"
    by (simp add: sorted_map sorted_wrt_iff_nth_less)
  ultimately show ?thesis
    by (simp add: dates_def distinct_remdups_id sort_key_id_if_sorted)
qed

lemma groupDataByDate_barsOf:
  "d < n \<Longrightarrow> groupDataByDate (barsOf cl n) (int d) = [dayBar d (cl d)]"
  by (simp add: groupDataByDate_def barsOf_def filter_map comp_def dayBar_def filter_upt_eq)

lemma history_barsOf:
  "d < n \<Longrightarrow>
     filter (\<lambda>x. symbol x = ''AAPL'' \<and> timestamp x \<le> dateOfKey (int d)) (barsOf cl n)
       = barsOf cl (Suc d)"
proof -
  assume d: "d < n"
  have "filter (\<lambda>x. symbol x = ''AAPL'' \<and> timestamp x \<le> dateOfKey (int d)) (barsOf cl n)
          = map (\<lambda>d. dayBar d (cl d)) (filter (\<lambda>j. j \<le> d) [0 ..< n])"
    by (simp add: barsOf_def filter_map comp_def dayBar_def dateOfKey_def msPerDay_def)
  then show ?thesis using filter_upt_le[OF d] by (simp add: barsOf_def del: upt_Suc)
qed

lemma finalData_barsOf: "finalData (barsOf cl (Suc n)) ''AAPL'' = Some (dayBar n (cl n))"
proof -
  have ex: "\<exists>d \<in> set (barsOf cl (Suc n)). symbol d = ''AAPL''"
    by (auto simp: barsOf_def dayBar_def)
  then obtain fd where fd: "finalData (barsOf cl (Suc n)) ''AAPL'' = Some fd"
    using finalData_exists by blast
  have last: "lastBarOf (barsOf cl (Suc n)) ''AAPL'' fd" using finalData_last[OF fd] .
  then obtain j where j: "j \<le> n" "fd = dayBar j (cl j)"
    by (auto simp: lastBarOf_def barsOf_def less_Suc_eq_le simp del: upt_Suc)
  have "dayBar n (cl n) \<in> set (barsOf cl (Suc n))" by (simp add: barsOf_def)
  moreover have "symbol (dayBar n (cl n)) = ''AAPL''" by (simp add: dayBar_def)
  ultimately have "timestamp (dayBar n (cl n)) \<le> timestamp fd"
    using last unfolding lastBarOf_def by blast
  then have "n \<le> j" using j by (simp add: dayBar_def)
  then show ?thesis using fd j by simp
qed

subsection \<open>Days without entry, days with the position held\<close>

lemma dayBar_fields [simp]:
  "symbol (dayBar d c) = ''AAPL''" "close (dayBar d c) = Num c" "low (dayBar d c) = Num c"
  "high (dayBar d c) = Num c" "timestamp (dayBar d c) = 86400000 * int d"
  by (simp_all add: dayBar_def)

lemma stateAfter_day:
  assumes "d < n"
  shows "stateAfter ps (barsOf cl n) (Suc d)
           = processDay ps (barsOf cl n) (stateAfter ps (barsOf cl n) d) (int d)"
  using assms stateAfter_Suc[of d "barsOf cl n" ps] by (simp add: dates_barsOf)

lemma quiet_day:
  assumes d: "d < n"
      and st: "positions (stateAfter ps (barsOf cl n) d) = []"
              "currentCapital (stateAfter ps (barsOf cl n) d) = Num c"
      and sg: "type_s (generateTradingSignal (dayBar d (cl d)) (strategy ps) (barsOf cl (Suc d)))
                 \<noteq> BUY"
  shows "stateAfter ps (barsOf cl n) (Suc d)
           = (stateAfter ps (barsOf cl n) d)
               \<lparr> equityCurve := equityCurve (stateAfter ps (barsOf cl n) d)
                    @ [equityPoint ps (dateOfKey (int d)) (Num c) [] [dayBar d (cl d)]] \<rparr>"
  unfolding stateAfter_day[OF d]
  using st sg
  by (simp add: processDay_def Let_def groupDataByDate_barsOf[OF d] history_barsOf[OF d]
        processExistingPositions_def processSignal_def)

lemma hold_day:
  assumes d: "d < n"
      and st: "positions (stateAfter ps (barsOf cl n) d) = [pos]"
              "currentCapital (stateAfter ps (barsOf cl n) d) = Num c"
      and full: "maxPositions ps = Num 1"
      and pos: "symbol_p pos = ''AAPL''"
      and stay: "fst (exitDecision pos (dayBar d (cl d))) = None"
  shows "stateAfter ps (barsOf cl n) (Suc d)
           = (stateAfter ps (barsOf cl n) d)
               \<lparr> equityCurve := equityCurve (stateAfter ps (barsOf cl n) d)
                    @ [equityPoint ps (dateOfKey (int d)) (Num c) [pos] [dayBar d (cl d)]] \<rparr>"
proof -
  have f: "find (\<lambda>x. symbol x = symbol_p pos) [dayBar d (cl d)] = Some (dayBar d (cl d))"
    using pos by (simp add: dayBar_def)
  have ex: "processExistingPositions [pos] [dayBar d (cl d)] ps
              = \<lparr> closedTrades = [], remainingPositions = [pos], capitalFromClosedTrades = Num 0 \<rparr>"
    using stay f
    by (cases "exitDecision pos (dayBar d (cl d))")
       (simp add: processExistingPositions_def processPosition_def)
  show ?thesis
    unfolding stateAfter_day[OF d]
    using st full ex
    by (simp add: processDay_def Let_def groupDataByDate_barsOf[OF d] processSignal_def)
qed

subsection \<open>The run with the dip\<close>

lemma changeFactor_changeDraw:
  "changeFactor (changeDraw d)
     = (if d = 9 then 99 / 100 else if d = 10 \<or> d = 20 then 101 / 100
        else if d = 21 then 995 / 1000 else 1)"
  by (simp add: changeDraw_def changeFactor_def)

lemma dipClose_values:
  "dipClose d
     = (if d < 9 then 100 else if d = 9 then 99 else if d < 20 then 9999 / 100
        else if d = 20 then 1009899 / 10000 else 1004849505 / 10000000)"
proof (induction d)
  case 0
  then show ?case by (simp add: dipClose_def changeFactor_changeDraw)
next
  case (Suc d)
  have step: "dipClose (Suc d) = dipClose d * changeFactor (changeDraw (Suc d))"
    by (simp add: dipClose_def)
  consider "Suc d < 9" | "Suc d = 9" | "Suc d = 10" | "10 < Suc d \<and> Suc d < 20" | "Suc d = 20"
    | "Suc d = 21" | "21 < Suc d"
    by linarith
  then show ?case
    unfolding step Suc.IH changeFactor_changeDraw
    by cases simp_all
qed

lemma dip_bars20:
  "barsOf dipClose 20
     = map (\<lambda>(d, c). dayBar d c)
         [(0, 100), (1, 100), (2, 100), (3, 100), (4, 100), (5, 100), (6, 100), (7, 100),
          (8, 100), (9, 99), (10, 9999 / 100), (11, 9999 / 100), (12, 9999 / 100),
          (13, 9999 / 100), (14, 9999 / 100), (15, 9999 / 100), (16, 9999 / 100),
          (17, 9999 / 100), (18, 9999 / 100), (19, 9999 / 100)]"
  by (simp add: barsOf_def dipClose_values eval_nat_numeral)

lemma dip_signal:
  "type_s (generateTradingSignal (dayBar 19 c) strat (barsOf dipClose 20)) = BUY"
  unfolding dip_bars20
  by (simp add: generateTradingSignal_def calculateRSI_def slice_def sliceFrom_def
        consecutive_def jsum_def Let_def)

lemma short_history_type:
  "length historicalData < 20
     \<Longrightarrow> type_s (generateTradingSignal currentData strat historicalData) = HOLD"
  by (simp add: generateTradingSignal_def)

lemma stateAfter_0:
  "stateAfter ps data 0
     = \<lparr> currentCapital = initialCapital ps, positions = [], trades = [], equityCurve = [] \<rparr>"
  by (simp add: stateAfter_def)

lemma dateOfKey_day: "dateOfKey k = 86400000 * k"
  by (simp add: dateOfKey_def msPerDay_def)

lemma dip_before:
  assumes "dipSetup ps"
  shows "d \<le> 19 \<Longrightarrow> d \<le> n \<Longrightarrow>
         stateAfter ps (barsOf dipClose n) d
           = \<lparr> currentCapital = Num 100000, positions = [], trades = [],
               equityCurve = map dipPoint [0 ..< d] \<rparr>"
proof (induction d)
  case 0
  then show ?case using assms by (simp add: stateAfter_0 dipSetup_def)
next
  case (Suc d)
  have st: "stateAfter ps (barsOf dipClose n) d
              = \<lparr> currentCapital = Num 100000, positions = [], trades = [],
                  equityCurve = map dipPoint [0 ..< d] \<rparr>"
    using Suc by simp
  have sg: "type_s (generateTradingSignal (dayBar d (dipClose d)) (strategy ps)
              (barsOf dipClose (Suc d))) \<noteq> BUY"
    using Suc.prems by (subst short_history_type) (simp_all add: barsOf_def)
  have pt: "equityPoint ps (dateOfKey (int d)) (Num 100000) [] [dayBar d (dipClose d)] = dipPoint d"
    using assms Suc.prems
    by (simp add: equityPoint_def positionValue_def dipPoint_def dipEquity_def dipSetup_def Let_def
          dateOfKey_day)
  have "d < n" using Suc.prems by simp
  from quiet_day[OF this _ _ sg, of "100000"] st pt
  show ?case by simp
qed

lemma dip_entry:
  assumes "dipSetup ps"
  shows "executeEntry sig (dayBar 19 (9999 / 100)) (Num 100000) ps = Some dipPosition"
proof -
  have "\<lfloor>10000 / (9999 / 100 :: real)\<rfloor> = 100" by (simp add: floor_eq_iff)
  then show ?thesis
    using assms by (simp add: executeEntry_def dipSetup_def dipPosition_def Let_def)
qed

lemma dip_entry_day:
  assumes "dipSetup ps" "19 < n"
  shows "stateAfter ps (barsOf dipClose n) 20
           = \<lparr> currentCapital = Num 90001, positions = [dipPosition], trades = [],
               equityCurve = map dipPoint [0 ..< 20] \<rparr>"
proof -
  have st: "stateAfter ps (barsOf dipClose n) 19
              = \<lparr> currentCapital = Num 100000, positions = [], trades = [],
                  equityCurve = map dipPoint [0 ..< 19] \<rparr>"
    using dip_before[OF assms(1), of 19 n] assms(2) by simp
  have c19: "dipClose 19 = 9999 / 100" by (simp add: dipClose_values)
  have hist: "filter (\<lambda>x. symbol x = ''AAPL'' \<and> timestamp x \<le> dateOfKey 19) (barsOf dipClose n)
                = barsOf dipClose 20"
    using history_barsOf[OF assms(2), of dipClose] by simp
  have full: "jlt (Num 0) (maxPositions ps)" using assms(1) by (simp add: dipSetup_def)
  have pt: "equityPoint ps (dateOfKey 19) (Num 90001) [dipPosition] [dayBar 19 (9999 / 100)]
              = dipPoint 19"
    using assms(1)
    by (simp add: equityPoint_def positionValue_def currentPrice_def dipPoint_def dipEquity_def
          dipSetup_def dipPosition_def Let_def dateOfKey_day)
  have grp: "groupDataByDate (barsOf dipClose n) 19 = [dayBar 19 (9999 / 100)]"
    using groupDataByDate_barsOf[OF assms(2), of dipClose] by (simp add: c19)
  have ex: "processExistingPositions [] [dayBar 19 (9999 / 100)] ps
              = \<lparr> closedTrades = [], remainingPositions = [], capitalFromClosedTrades = Num 0 \<rparr>"
    by (simp add: processExistingPositions_def)
  have v: "value_p dipPosition = Num 9999" by (simp add: dipPosition_def)
  have sg: "processSignal ps (barsOf dipClose n) (dateOfKey 19) ([], Num 100000)
              (dayBar 19 (9999 / 100)) = ([dipPosition], Num 90001)"
    by (simp add: processSignal_def hist dip_signal full dip_entry[OF assms(1)] v)
  have "stateAfter ps (barsOf dipClose n) (Suc 19)
          = processDay ps (barsOf dipClose n) (stateAfter ps (barsOf dipClose n) 19) (int 19)"
    by (rule stateAfter_day[OF assms(2)])
  also have "\<dots> = \<lparr> currentCapital = Num 90001, positions = [dipPosition], trades = [],
                       equityCurve = map dipPoint [0 ..< 19] @ [dipPoint 19] \<rparr>"
    by (simp add: st processDay_def Let_def grp ex sg pt)
  finally show ?thesis
    using upt_Suc_append[of 0 19] by simp
qed

lemma dip_after:
  assumes "dipSetup ps"
  shows "20 \<le> d \<Longrightarrow> d \<le> n \<Longrightarrow>
         stateAfter ps (barsOf dipClose n) d
           = \<lparr> currentCapital = Num 90001, positions = [dipPosition], trades = [],
               equityCurve = map dipPoint [0 ..< d] \<rparr>"
proof (induction d rule: nat_induct_at_least)
  case base
  then show ?case using dip_entry_day[OF assms, of n] by simp
next
  case (Suc d)
  have st: "stateAfter ps (barsOf dipClose n) d
              = \<lparr> currentCapital = Num 90001, positions = [dipPosition], trades = [],
                  equityCurve = map dipPoint [0 ..< d] \<rparr>"
    using Suc by simp
  have cl: "dipClose d = (if d = 20 then 1009899 / 10000 else 1004849505 / 10000000)"
    using Suc.hyps by (simp add: dipClose_values)
  have stay: "fst (exitDecision dipPosition (dayBar d (dipClose d))) = None"
    by (simp add: exitDecision_def present_def dipPosition_def cl)
  have pt: "equityPoint ps (dateOfKey (int d)) (Num 90001) [dipPosition] [dayBar d (dipClose d)]
              = dipPoint d"
    using assms Suc.hyps
    by (simp add: equityPoint_def positionValue_def currentPrice_def dipPoint_def dipEquity_def
          dipSetup_def dipPosition_def Let_def dateOfKey_day cl)
  have "d < n" using Suc.prems by simp
  from hold_day[of d n ps dipClose dipPosition 90001, OF this _ _ _ _ stay] st pt assms
  show ?case by (simp add: dipSetup_def dipPosition_def)
qed

lemma dip_run:
  assumes "dipSetup ps" "21 \<le> D"
  shows "runBacktestOn ps (barsOf dipClose (Suc D))
           = Inr \<lparr> strategy_r = strategy ps, parameters_r = ps,
                   metrics = calculateMetrics [dipTrade ps] (map dipPoint [0 ..< Suc D]) ps,
                   trades_r = [dipTrade ps], equityCurve_r = map dipPoint [0 ..< Suc D] \<rparr>"
proof -
  have sim: "simulate ps (barsOf dipClose (Suc D))
               = \<lparr> currentCapital = Num 90001, positions = [dipPosition], trades = [],
                   equityCurve = map dipPoint [0 ..< Suc D] \<rparr>"
    using dip_after[OF assms(1), of "Suc D" "Suc D"] assms(2)
      stateAfter_all[of ps "barsOf dipClose (Suc D)"]
    by (simp add: dates_barsOf del: upt_Suc)
  have cl: "dipClose D = 1004849505 / 10000000"
    using assms(2) by (simp add: dipClose_values)
  have sy: "symbol_p dipPosition = ''AAPL''" by (simp add: dipPosition_def)
  show ?thesis
    by (simp add: runBacktestOn_def sim Let_def sy finalData_barsOf cl dipTrade_def del: upt_Suc)
qed

subsection \<open>The run on the flat price\<close>

lemma flat_path: "pricePath 100 flatDraw d = 100"
  by (induction d) (simp_all add: flatDraw_def changeFactor_def)

lemma flat_bars: "barsOf (pricePath 100 flatDraw) n = barsOf (\<lambda>d. 100) n"
  by (simp add: barsOf_def flat_path)

lemma foldl_jadd_const:
  "foldl jadd (Num a) (replicate n (Num p)) = Num (a + real n * p)"
  by (induction n arbitrary: a) (simp_all add: algebra_simps)

lemma jsum_const:
  assumes "\<forall>x \<in> set xs. close x = Num p"
  shows "jsum (map close xs) = Num (real (length xs) * p)"
proof -
  have "map close xs = replicate (length xs) (Num p)"
    using assms by (simp add: map_replicate_const[symmetric] cong: map_cong)
  then show ?thesis using foldl_jadd_const[of 0 "length xs" p] by (simp add: jsum_def)
qed

lemma slice_set: "set (slice a b xs) \<subseteq> set xs"
  unfolding slice_def Let_def
  by (meson set_drop_subset set_take_subset subset_trans)

lemma sliceFrom_length: "0 < k \<Longrightarrow> length (sliceFrom (- int k) xs) = min k (length xs)"
  by (auto simp: sliceFrom_def slice_def Let_def min_def max_def)

lemma flat_signal:
  assumes "\<forall>x \<in> set hist. close x = Num p"
  shows "type_s (generateTradingSignal bar strat hist) = HOLD"
proof (cases "length hist < 20")
  case True
  then show ?thesis by (rule short_history_type)
next
  case False
  let ?recent = "sliceFrom (- 20) hist"
  let ?short = "sliceFrom (- 10) ?recent"
  have lr: "length ?recent = 20" using False sliceFrom_length[of 20 hist] by simp
  have ls: "length ?short = 10" using lr sliceFrom_length[of 10 ?recent] by simp
  have "set ?recent \<subseteq> set hist" by (simp add: sliceFrom_def slice_set)
  then have ar: "\<forall>x \<in> set ?recent. close x = Num p" using assms by auto
  moreover have "set ?short \<subseteq> set ?recent" by (simp add: sliceFrom_def slice_set)
  ultimately have as: "\<forall>x \<in> set ?short. close x = Num p" by auto
  have lm: "jdiv (jsum (map close ?recent)) (Num 20) = Num p"
    using jsum_const[OF ar] lr by simp
  have sm: "jdiv (jsum (map close ?short)) (Num 10) = Num p"
    using jsum_const[OF as] ls by simp
  show ?thesis
    using False by (simp add: generateTradingSignal_def Let_def lm sm)
qed

lemma flat_state:
  assumes "dipSetup ps"
  shows "d \<le> n \<Longrightarrow>
         stateAfter ps (barsOf (\<lambda>d. 100) n) d
           = \<lparr> currentCapital = Num 100000, positions = [], trades = [],
               equityCurve = map flatPoint [0 ..< d] \<rparr>"
proof (induction d)
  case 0
  then show ?case using assms by (simp add: stateAfter_0 dipSetup_def)
next
  case (Suc d)
  have st: "stateAfter ps (barsOf (\<lambda>d. 100) n) d
              = \<lparr> currentCapital = Num 100000, positions = [], trades = [],
                  equityCurve = map flatPoint [0 ..< d] \<rparr>"
    using Suc by simp
  have "type_s (generateTradingSignal (dayBar d 100) (strategy ps) (barsOf (\<lambda>d. 100) (Suc d))) = HOLD"
    by (rule flat_signal[of _ 100]) (auto simp: barsOf_def simp del: upt_Suc)
  then have sg: "type_s (generateTradingSignal (dayBar d 100) (strategy ps)
                    (barsOf (\<lambda>d. 100) (Suc d))) \<noteq> BUY"
    by simp
  have pt: "equityPoint ps (dateOfKey (int d)) (Num 100000) [] [dayBar d 100] = flatPoint d"
    using assms
    by (simp add: equityPoint_def positionValue_def flatPoint_def dipSetup_def Let_def dateOfKey_day)
  have "d < n" using Suc.prems by simp
  from quiet_day[of d n ps "\<lambda>d. 100" 100000, OF this _ _ sg] st pt
  show ?case by simp
qed

lemma flat_run:
  assumes "dipSetup ps"
  shows "runBacktestOn ps (barsOf (pricePath 100 flatDraw) n)
           = Inr \<lparr> strategy_r = strategy ps, parameters_r = ps, metrics = getEmptyMetrics,
                   trades_r = [], equityCurve_r = map flatPoint [0 ..< n] \<rparr>"
proof -
  have "simulate ps (barsOf (\<lambda>d. 100) n)
          = \<lparr> currentCapital = Num 100000, positions = [], trades = [],
              equityCurve = map flatPoint [0 ..< n] \<rparr>"
    using flat_state[OF assms, of n n] stateAfter_all[of ps "barsOf (\<lambda>d. 100) n"]
    by (simp add: dates_barsOf)
  then show ?thesis
    by (simp add: runBacktestOn_def flat_bars Let_def calculateMetrics_def)
qed

subsection \<open>A run depends on its draws only\<close>

lemma generateDays_draws:
  assumes "\<forall>j < 5 * n. rnd1 (k1 + j) = rnd2 (k2 + j)"
  shows "fst (generateDays rnd1 symb start n i price k1) = fst (generateDays rnd2 symb start n i price k2)
       \<and> snd (generateDays rnd1 symb start n i price k1) = k1 + 5 * n
       \<and> snd (generateDays rnd2 symb start n i price k2) = k2 + 5 * n"
  using assms
proof (induction n arbitrary: i price k1 k2)
  case 0
  then show ?case by simp
next
  case (Suc n)
  have d: "rnd1 k1 = rnd2 k2" "rnd1 (Suc k1) = rnd2 (Suc k2)"
          "rnd1 (Suc (Suc k1)) = rnd2 (Suc (Suc k2))"
          "rnd1 (k1 + 3) = rnd2 (k2 + 3)" "rnd1 (k1 + 4) = rnd2 (k2 + 4)"
    using Suc.prems[rule_format, of 0] Suc.prems[rule_format, of 1] Suc.prems[rule_format, of 2]
      Suc.prems[rule_format, of 3] Suc.prems[rule_format, of 4]
    by simp_all
  have rest: "\<forall>j < 5 * n. rnd1 (k1 + 5 + j) = rnd2 (k2 + 5 + j)"
  proof (intro allI impI)
    fix j assume "j < 5 * n"
    then have "5 + j < 5 * Suc n" by simp
    from Suc.prems[rule_format, OF this] show "rnd1 (k1 + 5 + j) = rnd2 (k2 + 5 + j)"
      by (simp add: add.assoc)
  qed
  let ?price = "price * (1 + 2 / 10000 + (rnd2 k2 - 1 / 2) * 2 * (2 / 100))"
  from Suc.IH[OF rest, of "i + 1" ?price]
  show ?case
    by (simp add: Let_def d split_beta)
qed

lemma generateSymbols_draws:
  assumes "\<forall>j < length syms * (1 + 5 * n). rnd1 (k1 + j) = rnd2 (k2 + j)"
  shows "fst (generateSymbols rnd1 syms start n k1) = fst (generateSymbols rnd2 syms start n k2)
       \<and> snd (generateSymbols rnd1 syms start n k1) = k1 + length syms * (1 + 5 * n)
       \<and> snd (generateSymbols rnd2 syms start n k2) = k2 + length syms * (1 + 5 * n)"
  using assms
proof (induction syms arbitrary: k1 k2)
  case Nil
  then show ?case by simp
next
  case (Cons symb rest)
  have first: "rnd1 k1 = rnd2 k2" using Cons.prems[rule_format, of 0] by simp
  have days: "\<forall>j < 5 * n. rnd1 (k1 + 1 + j) = rnd2 (k2 + 1 + j)"
  proof (intro allI impI)
    fix j assume "j < 5 * n"
    then have "1 + j < length (symb # rest) * (1 + 5 * n)" by simp
    from Cons.prems[rule_format, OF this] show "rnd1 (k1 + 1 + j) = rnd2 (k2 + 1 + j)"
      by (simp add: add.assoc)
  qed
  have more: "\<forall>j < length rest * (1 + 5 * n).
                 rnd1 (k1 + 1 + 5 * n + j) = rnd2 (k2 + 1 + 5 * n + j)"
  proof (intro allI impI)
    fix j assume "j < length rest * (1 + 5 * n)"
    then have "1 + 5 * n + j < length (symb # rest) * (1 + 5 * n)" by simp
    from Cons.prems[rule_format, OF this]
    show "rnd1 (k1 + 1 + 5 * n + j) = rnd2 (k2 + 1 + 5 * n + j)"
      by (simp add: add.assoc)
  qed
  from generateDays_draws[OF days, of symb start 0 "100 + rnd2 k2 * 200"]
       Cons.IH[OF more]
  show ?case
    by (simp add: Let_def first split_beta algebra_simps)
qed

text \<open>
  Claim C2, as amended. Two invocations with identical parameters that receive the same
  sequence of random draws (as many as the run makes) produce the same result: strategy,
  parameters, metrics, trades and equity curve.
\<close>

theorem same_draws_same_run:
  assumes "\<forall>j < drawsNeeded ps. rnd1 (k1 + j) = rnd2 (k2 + j)"
  shows "fst (runBacktest ps rnd1 k1) = fst (runBacktest ps rnd2 k2)"
proof -
  have "fst (generateHistoricalData rnd1 (symbols ps) (startDate ps) (endDate ps) k1)
          = fst (generateHistoricalData rnd2 (symbols ps) (startDate ps) (endDate ps) k2)"
    using generateSymbols_draws[of "symbols ps" _ rnd1 k1 rnd2 k2 "startDate ps"] assms
    by (simp add: generateHistoricalData_def drawsNeeded_def Let_def)
  then show ?thesis
    by (simp add: runBacktest_def Let_def split_beta)
qed

theorem same_draws_same_run_witness:
  "drawsNeeded dipParameters = 156 \<and> dipDrawsThen 156 \<noteq> dipDraws 156
   \<and> fst (runBacktest dipParameters dipDraws 0) = fst (runBacktest dipParameters dipDrawsThen 0)"
proof -
  have n: "drawsNeeded dipParameters = 156"
    by (simp add: drawsNeeded_def dipParameters_def msPerDay_def)
  have h: "\<forall>j < drawsNeeded dipParameters. dipDraws (0 + j) = dipDrawsThen (0 + j)"
    by (simp add: n dipDrawsThen_def)
  have "dipDrawsThen 156 \<noteq> dipDraws 156"
    by (simp add: dipDrawsThen_def dipDraws_def drawsFor_def changeDraw_def)
  then show ?thesis using n same_draws_same_run[OF h] by simp
qed

subsection \<open>The two backtests of 31 bars\<close>

lemma dipParameters_setup: "dipSetup dipParameters"
  by (simp add: dipSetup_def dipParameters_def)

lemma dip_run_31:
  "fst (runBacktest dipParameters dipDraws 0)
     = Inr \<lparr> strategy_r = strategy dipParameters, parameters_r = dipParameters,
             metrics = calculateMetrics [dipTrade dipParameters] (map dipPoint [0 ..< 31])
                         dipParameters,
             trades_r = [dipTrade dipParameters], equityCurve_r = map dipPoint [0 ..< 31] \<rparr>"
proof -
  have g: "generateHistoricalData dipDraws [''AAPL''] 0 (30 * msPerDay) 0
             = (barsOf dipClose 31, 156)"
    using generateHistoricalData_path[of 0 0 changeDraw "\<lambda>k. 0" 30]
    by (simp add: dipDraws_def dipClose_def)
  have r: "runBacktestOn dipParameters (barsOf dipClose 31)
             = Inr \<lparr> strategy_r = strategy dipParameters, parameters_r = dipParameters,
                     metrics = calculateMetrics [dipTrade dipParameters] (map dipPoint [0 ..< 31])
                                 dipParameters,
                     trades_r = [dipTrade dipParameters],
                     equityCurve_r = map dipPoint [0 ..< 31] \<rparr>"
    using dip_run[OF dipParameters_setup, of 30] by simp
  have p: "symbols dipParameters = [''AAPL'']" "startDate dipParameters = 0"
          "endDate dipParameters = 30 * msPerDay"
    by (simp_all add: dipParameters_def)
  show ?thesis by (simp add: runBacktest_def p g r)
qed

lemma flat_run_31:
  "fst (runBacktest dipParameters flatDraws 0)
     = Inr \<lparr> strategy_r = strategy dipParameters, parameters_r = dipParameters,
             metrics = getEmptyMetrics, trades_r = [],
             equityCurve_r = map flatPoint [0 ..< 31] \<rparr>"
proof -
  have g: "generateHistoricalData flatDraws [''AAPL''] 0 (30 * msPerDay) 0
             = (barsOf (pricePath 100 flatDraw) 31, 156)"
    using generateHistoricalData_path[of 0 0 flatDraw "\<lambda>k. 0" 30]
    by (simp add: flatDraws_def)
  have p: "symbols dipParameters = [''AAPL'']" "startDate dipParameters = 0"
          "endDate dipParameters = 30 * msPerDay"
    by (simp_all add: dipParameters_def)
  show ?thesis
    by (simp add: runBacktest_def p g flat_run[OF dipParameters_setup])
qed

text \<open>
  The claim as stated fails: with the same parameters, the draws with the dip give one
  trade and an equity curve that moves, the draws with the flat price give no trade, a
  flat curve and the empty metrics.
\<close>

theorem same_parameters_different_runs:
  "fst (runBacktest dipParameters dipDraws 0)
     = Inr \<lparr> strategy_r = strategy dipParameters, parameters_r = dipParameters,
             metrics = calculateMetrics [dipTrade dipParameters] (map dipPoint [0 ..< 31])
                         dipParameters,
             trades_r = [dipTrade dipParameters], equityCurve_r = map dipPoint [0 ..< 31] \<rparr>
   \<and> fst (runBacktest dipParameters flatDraws 0)
     = Inr \<lparr> strategy_r = strategy dipParameters, parameters_r = dipParameters,
             metrics = getEmptyMetrics, trades_r = [],
             equityCurve_r = map flatPoint [0 ..< 31] \<rparr>
   \<and> fst (runBacktest dipParameters dipDraws 0) \<noteq> fst (runBacktest dipParameters flatDraws 0)"
  by (simp add: dip_run_31 flat_run_31)

subsection \<open>Drawdown\<close>

lemma processDay_curve:
  "\<exists>pt. equityCurve (processDay ps data st k) = equityCurve st @ [pt]
        \<and> drawdown pt = jmax (Num 0) (jsub (initialCapital ps) (equity pt))
        \<and> drawdownPercent pt = jmul (jdiv (drawdown pt) (initialCapital ps)) (Num 100)"
  by (simp add: processDay_def equityPoint_def Let_def split_beta)

lemma days_curve:
  assumes "\<forall>pt \<in> set (equityCurve st).
             drawdown pt = jmax (Num 0) (jsub (initialCapital ps) (equity pt))
             \<and> drawdownPercent pt = jmul (jdiv (drawdown pt) (initialCapital ps)) (Num 100)"
  shows "\<forall>pt \<in> set (equityCurve (foldl (processDay ps data) st ks)).
           drawdown pt = jmax (Num 0) (jsub (initialCapital ps) (equity pt))
           \<and> drawdownPercent pt = jmul (jdiv (drawdown pt) (initialCapital ps)) (Num 100)"
  using assms
proof (induction ks arbitrary: st)
  case Nil
  then show ?case by simp
next
  case (Cons k rest)
  obtain pt where pt: "equityCurve (processDay ps data st k) = equityCurve st @ [pt]"
      "drawdown pt = jmax (Num 0) (jsub (initialCapital ps) (equity pt))"
      "drawdownPercent pt = jmul (jdiv (drawdown pt) (initialCapital ps)) (Num 100)"
    using processDay_curve by blast
  have "\<forall>q \<in> set (equityCurve (processDay ps data st k)).
           drawdown q = jmax (Num 0) (jsub (initialCapital ps) (equity q))
           \<and> drawdownPercent q = jmul (jdiv (drawdown q) (initialCapital ps)) (Num 100)"
    using Cons.prems pt by auto
  from Cons.IH[OF this] show ?case by simp
qed

text \<open>
  At every point of the equity curve of a run the drawdown is the initial capital minus
  the equity, floored at 0, and the drawdown percent is relative to the initial capital.
\<close>

lemma drawdown_against_initial_capital:
  "\<forall>pt \<in> set (equityCurve (simulate ps data)).
     drawdown pt = jmax (Num 0) (jsub (initialCapital ps) (equity pt))
     \<and> drawdownPercent pt = jmul (jdiv (drawdown pt) (initialCapital ps)) (Num 100)"
  unfolding simulate_def by (rule days_curve) simp

text \<open>
  Claim C1 at a run the code can make: the equity rises to 100099.99 on day 20 and falls
  to 100049.49505 on day 21. The reported drawdown of day 21 is 0, measured against the
  initial capital of 100000; measured against the running peak it is 50.49495, and day
  21 is no new maximum.
\<close>

theorem drawdown_measured_from_initial_capital:
  "equity (resultCurve (fst (runBacktest dipParameters dipDraws 0)) ! 20) = Num (10009999 / 100)
   \<and> equity (resultCurve (fst (runBacktest dipParameters dipDraws 0)) ! 21)
       = Num (10004949505 / 100000)
   \<and> drawdown (resultCurve (fst (runBacktest dipParameters dipDraws 0)) ! 21) = Num 0
   \<and> peakDrawdown (map equity (resultCurve (fst (runBacktest dipParameters dipDraws 0)))) 21
       = Num (5049495 / 100000)"
proof -
  have c: "resultCurve (fst (runBacktest dipParameters dipDraws 0)) = map dipPoint [0 ..< 31]"
    by (simp add: dip_run_31 resultCurve_def)
  have pk: "runningPeak (map (equity \<circ> dipPoint) [0 ..< 31]) 21 = Num (10009999 / 100)"
    by (simp add: runningPeak_def jmaxList_def dipPoint_def dipEquity_def eval_nat_numeral jmax_def)
  show ?thesis
    unfolding c
    by (simp add: peakDrawdown_def pk) (simp add: dipPoint_def dipEquity_def)
qed

subsection \<open>The optimisation over two combinations\<close>

lemma generateHistoricalData_draws:
  assumes "\<forall>j < length syms * (1 + 5 * nat (\<lceil>real_of_int (e - s) / real_of_int msPerDay\<rceil> + 1)).
             rnd1 (k + j) = rnd2 (k + j)"
  shows "generateHistoricalData rnd1 syms s e k = generateHistoricalData rnd2 syms s e k"
  using generateSymbols_draws[OF assms, of s]
  by (simp add: generateHistoricalData_def Let_def prod_eq_iff)

lemma two_run_first:
  assumes "dipSetup ps" "symbols ps = [''AAPL'']" "startDate ps = 0" "endDate ps = 60 * msPerDay"
  shows "runBacktest ps twoRunDraws 0
           = (Inr \<lparr> strategy_r = strategy ps, parameters_r = ps, metrics = getEmptyMetrics,
                    trades_r = [], equityCurve_r = map flatPoint [0 ..< 61] \<rparr>, 306)"
proof -
  have "generateHistoricalData twoRunDraws [''AAPL''] 0 (60 * msPerDay) 0
          = generateHistoricalData (drawsFor 0 0 flatDraw (\<lambda>k. 0)) [''AAPL''] 0 (60 * msPerDay) 0"
    by (rule generateHistoricalData_draws)
       (simp add: msPerDay_def twoRunDraws_def drawsFor_def)
  then have g: "generateHistoricalData twoRunDraws [''AAPL''] 0 (60 * msPerDay) 0
             = (barsOf (pricePath 100 flatDraw) 61, 306)"
    using generateHistoricalData_path[of 0 0 flatDraw "\<lambda>k. 0" 60] by simp
  show ?thesis
    by (simp add: runBacktest_def assms(2,3,4) g flat_run[OF assms(1)])
qed

lemma two_run_second:
  assumes "dipSetup ps" "symbols ps = [''AAPL'']" "startDate ps = 0" "endDate ps = 60 * msPerDay"
  shows "runBacktest ps twoRunDraws 306
           = (Inr \<lparr> strategy_r = strategy ps, parameters_r = ps,
                    metrics = calculateMetrics [dipTrade ps] (map dipPoint [0 ..< 61]) ps,
                    trades_r = [dipTrade ps], equityCurve_r = map dipPoint [0 ..< 61] \<rparr>, 612)"
proof -
  have g: "generateHistoricalData twoRunDraws [''AAPL''] 0 (60 * msPerDay) 306
             = (barsOf dipClose 61, 612)"
    using generateHistoricalData_path[of 306 0 changeDraw "drawsFor 0 0 flatDraw (\<lambda>k. 0)" 60]
    by (simp add: twoRunDraws_def dipClose_def)
  have r: "runBacktestOn ps (barsOf dipClose 61)
             = Inr \<lparr> strategy_r = strategy ps, parameters_r = ps,
                     metrics = calculateMetrics [dipTrade ps] (map dipPoint [0 ..< 61]) ps,
                     trades_r = [dipTrade ps], equityCurve_r = map dipPoint [0 ..< 61] \<rparr>"
    using dip_run[OF assms(1), of 60] by simp
  show ?thesis
    by (simp add: runBacktest_def assms(2,3,4) g r)
qed

lemma consecutive_map_upt:
  "consecutive (map f [0 ..< Suc n]) = map (\<lambda>d. (f d, f (Suc d))) [0 ..< n]"
proof (rule nth_equalityI)
  show "length (consecutive (map f [0 ..< Suc n])) = length (map (\<lambda>d. (f d, f (Suc d))) [0 ..< n])"
    by (simp add: consecutive_def)
next
  fix i
  assume "i < length (consecutive (map f [0 ..< Suc n]))"
  then have i: "i < n" by (simp add: consecutive_def)
  then show "consecutive (map f [0 ..< Suc n]) ! i = map (\<lambda>d. (f d, f (Suc d))) [0 ..< n] ! i"
    by (simp add: consecutive_def nth_tl nth_append del: upt_Suc)
qed

lemma dipEquity_nonzero: "dipEquity d \<noteq> 0"
  by (simp add: dipEquity_def)

lemma dip_returns:
  "dailyReturns_of (map dipPoint [0 ..< Suc n]) = map (\<lambda>d. Num (dipReturn d)) [0 ..< n]"
  unfolding dailyReturns_of_def consecutive_map_upt
  by (simp add: dipPoint_def dipReturn_def dipEquity_nonzero)

lemma foldl_jadd_Num:
  "foldl jadd (Num a) (map (\<lambda>d. Num (g d)) xs) = Num (a + sum_list (map g xs))"
  by (induction xs arbitrary: a) (simp_all add: algebra_simps)

lemma jsum_Num: "jsum (map (\<lambda>d. Num (g d)) xs) = Num (sum_list (map g xs))"
  using foldl_jadd_Num[of 0 g xs] by (simp add: jsum_def)

lemma dipReturn_values:
  "dipReturn d
     = (if d = 19 then 9999 / 10000000 else if d = 20 then - (5049495 / 10009999000) else 0)"
  by (simp add: dipReturn_def dipEquity_def)

lemma dip_return_sum:
  "sum_list (map dipReturn [0 ..< 60]) = 9999 / 10000000 - 5049495 / 10009999000"
proof -
  have "sum_list (map dipReturn [0 ..< 60]) = sum dipReturn {0 ..< 60}"
    by (simp add: interv_sum_list_conv_sum_set_nat)
  also have "\<dots> = sum dipReturn {19, 20}"
    by (rule sum.mono_neutral_right) (auto simp: dipReturn_values)
  also have "\<dots> = 9999 / 10000000 - 5049495 / 10009999000"
    by (simp add: dipReturn_values)
  finally show ?thesis .
qed

lemma dip_excess:
  "excessReturn_of (map dipPoint [0 ..< 61])
     = Num ((9999 / 10000000 - 5049495 / 10009999000) / 60 - 2 / 100 / 365)"
  using dip_returns[of 60]
  by (simp add: excessReturn_of_def Let_def jsum_Num dip_return_sum riskFreeRate_def)

lemma sharpe_not_positive:
  assumes "excessReturn_of curve = Num e" "e \<le> 0"
  shows "\<not> jgt (sharpeRatio (calculateMetrics trades' curve ps)) (Num 0)"
proof (cases "length trades' = 0 \<or> length curve = 0")
  case True
  then show ?thesis by (simp add: calculateMetrics_def getEmptyMetrics_def)
next
  case False
  have s: "0 \<le> sqrt 365" by simp
  show ?thesis
  proof (cases "calculateVolatility (dailyReturns_of curve)")
    case (Num v)
    have "e / v * sqrt 365 \<le> 0" if "0 < v"
      using that assms(2) by (simp add: mult_le_0_iff divide_le_0_iff)
    then show ?thesis using False Num assms(1)
      by (auto simp: calculateMetrics_def Let_def)
  next
    case PosInf
    then show ?thesis using False assms(1)
      by (simp add: calculateMetrics_def Let_def jgt_def)
  next
    case NegInf
    then show ?thesis using False by (simp add: calculateMetrics_def Let_def jgt_def)
  next
    case NaN
    then show ?thesis using False by (simp add: calculateMetrics_def Let_def jgt_def)
  qed
qed

lemma dipMetrics_sharpe: "\<not> jgt (sharpeRatio dipMetrics) (Num 0)"
  unfolding dipMetrics_def
  by (rule sharpe_not_positive[OF dip_excess]) simp

lemma dipMetrics_totalReturn: "totalReturn dipMetrics = Num (4949505 / 100000)"
proof -
  have "last (map dipPoint [0 ..< 61]) = dipPoint 60"
    using last_map[of "[0 ..< 61]" dipPoint] by simp
  then show ?thesis
    by (simp add: dipMetrics_def calculateMetrics_def Let_def twoParameters_def dipPoint_def
          dipEquity_def)
qed

lemma twoParameters_setup:
  "dipSetup (twoParameters v)" "symbols (twoParameters v) = [''AAPL'']"
  "startDate (twoParameters v) = 0" "endDate (twoParameters v) = 60 * msPerDay"
  by (simp_all add: twoParameters_def dipSetup_def)

lemma two_combinations:
  "generateParameterCombinations [(''shortPeriod'', \<lparr> rmin = 5, rmax = 6, rstep = 1 \<rparr>)]
     = Some [[(''shortPeriod'', 5)], [(''shortPeriod'', 6)]]"
  by (simp add: generateParameterCombinations_def rangeValues_def rangeFrom.simps)

lemma two_optimize:
  "optimizeStrategy \<lparr> strategyName = ''ma-crossover'', parameters = [] \<rparr>
       [(''shortPeriod'', \<lparr> rmin = 5, rmax = 6, rstep = 1 \<rparr>)]
       \<lparr> strategy = \<lparr> strategyName = ''ma-crossover'', parameters = [] \<rparr>,
         startDate = 0, endDate = 60 * msPerDay, initialCapital = Num 100000,
         symbols = [''AAPL''], commission = Num 0, slippage = Num 0, maxPositions = Num 1 \<rparr>
       twoRunDraws 0
     = Some (Inr \<lparr> bestStrategy = strategy (twoParameters 5),
                     bestMetrics = Some getEmptyMetrics,
                     optimizationResults = [([(''shortPeriod'', 5)], getEmptyMetrics),
                                            ([(''shortPeriod'', 6)], dipMetrics)] \<rparr>,
             612, 2)"
proof -
  let ?base = "\<lparr> strategyName = ''ma-crossover'', parameters = [] \<rparr>"
  let ?bp = "\<lparr> strategy = ?base, startDate = 0, endDate = 60 * msPerDay,
               initialCapital = Num 100000, symbols = [''AAPL''], commission = Num 0,
               slippage = Num 0, maxPositions = Num 1 \<rparr>"
  have p: "?bp\<lparr> strategy := ?base\<lparr> parameters := parameters ?base
                     @ map (\<lambda>(key, v). (key, Num v)) [(''shortPeriod'', v)] \<rparr> \<rparr>
             = twoParameters v" for v
    by (simp add: twoParameters_def)
  have r1: "runBacktest (twoParameters 5) twoRunDraws 0
              = (Inr \<lparr> strategy_r = strategy (twoParameters 5), parameters_r = twoParameters 5,
                       metrics = getEmptyMetrics, trades_r = [],
                       equityCurve_r = map flatPoint [0 ..< 61] \<rparr>, 306)"
    by (rule two_run_first[OF twoParameters_setup])
  have r2: "runBacktest (twoParameters 6) twoRunDraws 306
              = (Inr \<lparr> strategy_r = strategy (twoParameters 6), parameters_r = twoParameters 6,
                       metrics = dipMetrics, trades_r = [dipTrade (twoParameters 6)],
                       equityCurve_r = map dipPoint [0 ..< 61] \<rparr>, 612)"
    unfolding dipMetrics_def by (rule two_run_second[OF twoParameters_setup])
  have e: "sharpeRatio getEmptyMetrics = Num 0" by (simp add: getEmptyMetrics_def)
  note r1n = r1[unfolded twoParameters_def]
  note r2n = r2[unfolded twoParameters_def]
  show ?thesis
    by (simp add: optimizeStrategy_def two_combinations Let_def r1n r2n e dipMetrics_sharpe
          twoParameters_def)
qed

text \<open>
  Claim C4 at a request the handler can receive: two combinations ranked by total
  return. The combination with \<open>shortPeriod = 6\<close> has the higher total return, 49.50
  against 0, and comes first in the ranking; the best that is returned is the one with
  \<open>shortPeriod = 5\<close>, which has the higher Sharpe ratio.
\<close>

theorem best_is_by_sharpe_ratio:
  "POST okEnv twoBody twoRunDraws 0
     = Some (Success \<lparr> totalCombinationsTested = 2,
                        optimizationMetric_o = TotalReturnMetric,
                        bestParameters = [(''shortPeriod'', Num 5)],
                        bestMetrics_o = report getEmptyMetrics,
                        topResults = [([(''shortPeriod'', 6)], report dipMetrics),
                                      ([(''shortPeriod'', 5)], report getEmptyMetrics)] \<rparr>,
             612, 2)
   \<and> totalReturn_o (report getEmptyMetrics) = Num 0
   \<and> totalReturn_o (report dipMetrics) = Num (99 / 2)
   \<and> \<not> jgt (sharpeRatio dipMetrics) (sharpeRatio getEmptyMetrics)"
proof -
  have t: "totalCombinations (parameterRanges twoBody) = 2"
    by (simp add: totalCombinations_def twoBody_def)
  have c: "compareResults TotalReturnMetric ([(''shortPeriod'', 5::real)], getEmptyMetrics)
             ([(''shortPeriod'', 6)], dipMetrics) = Num (4949505 / 100000)"
    by (simp add: compareResults_def dipMetrics_totalReturn getEmptyMetrics_def)
  have srt: "sortBy (compareResults TotalReturnMetric)
               [([(''shortPeriod'', 5::real)], getEmptyMetrics), ([(''shortPeriod'', 6)], dipMetrics)]
             = [([(''shortPeriod'', 6)], dipMetrics), ([(''shortPeriod'', 5)], getEmptyMetrics)]"
    by (simp add: sortBy_def c)
  have post: "POST okEnv twoBody twoRunDraws 0
     = Some (Success \<lparr> totalCombinationsTested = 2,
                        optimizationMetric_o = TotalReturnMetric,
                        bestParameters = [(''shortPeriod'', Num 5)],
                        bestMetrics_o = report getEmptyMetrics,
                        topResults = [([(''shortPeriod'', 6)], report dipMetrics),
                                      ([(''shortPeriod'', 5)], report getEmptyMetrics)] \<rparr>,
             612, 2)"
    using two_optimize t
    by (simp add: POST_def okEnv_def twoBody_def optimizeSchema_def inRange_def is_int_def
          orElse_def msPerDay_def Let_def srt twoParameters_def)
  have z: "totalReturn_o (report getEmptyMetrics) = Num 0"
    by (simp add: report_def getEmptyMetrics_def)
  have "\<lfloor>(4949505 / 100000 :: real) * 10 ^ 2 + 1 / 2\<rfloor> = 4950"
    by (simp add: floor_eq_iff)
  then have d: "totalReturn_o (report dipMetrics) = Num (99 / 2)"
    by (simp add: report_def dipMetrics_totalReturn)
  show ?thesis
    using post z d dipMetrics_sharpe by (simp add: getEmptyMetrics_def)
qed

end
